theory Spec2Isabelle
  imports Complex_Main "HOL-Library.AList"
begin

section \<open>Python values: exceptions, dictionary entries, strings\<close>

text \<open>
  An exception raised by the Python code is a value; the argument stands for what
  \<open>str(e)\<close> gives (Python's wording without its quotation marks). \<open>ExternalError\<close>
  stands for whatever an external client (model API, database driver, video API, JSON
  parser) raises.
\<close>

datatype exn =
    AttributeError string
  | TypeError string
  | KeyError string
  | ExternalError string

fun str_of_exn :: "exn \<Rightarrow> string" where
  "str_of_exn (AttributeError s) = s"
| "str_of_exn (TypeError s) = s"
| "str_of_exn (KeyError s) = s"
| "str_of_exn (ExternalError s) = s"

text \<open>
  A key of a JSON object that the code reads: the key is absent, it is present with the
  value \<open>null\<close>, or it is present with a value of the expected type.
\<close>

datatype 'a slot = Absent | Null | Val 'a

text \<open>\<open>d.get(key, default)\<close>: the result \<open>None\<close> is Python's \<open>None\<close>.\<close>

fun get_or :: "'a slot \<Rightarrow> 'a \<Rightarrow> 'a option" where
  "get_or Absent d = Some d"
| "get_or Null d = None"
| "get_or (Val v) d = Some v"

text \<open>\<open>"key" in d\<close>.\<close>

fun has_key :: "'a slot \<Rightarrow> bool" where
  "has_key Absent = False"
| "has_key Null = True"
| "has_key (Val v) = True"

text \<open>
  Strings are lists of 8-bit characters. \<open>lower\<close> is \<open>str.lower\<close> on ASCII letters
  (other characters are left as they are); \<open>str_in p s\<close> is Python's \<open>p in s\<close>.
\<close>

definition lower_char :: "char \<Rightarrow> char" where
  "lower_char c =
     (case map_of (zip ''ABCDEFGHIJKLMNOPQRSTUVWXYZ'' ''abcdefghijklmnopqrstuvwxyz'') c of
        Some d \<Rightarrow> d
      | None \<Rightarrow> c)"

definition lower :: "string \<Rightarrow> string" where
  "lower s = map lower_char s"

fun startswith :: "string \<Rightarrow> string \<Rightarrow> bool" where
  "startswith s [] = True"
| "startswith [] (p # ps) = False"
| "startswith (c # cs) (p # ps) = (if c = p then startswith cs ps else False)"

fun str_in :: "string \<Rightarrow> string \<Rightarrow> bool" where
  "str_in p [] = (p = [])"
| "str_in p (c # cs) = (if startswith (c # cs) p then True else str_in p cs)"

section \<open>The data model: messages and tool calls\<close>

text \<open>
  A tool call as the routes read it: \<open>tool_call["id"]\<close>, \<open>tool_call["type"]\<close>,
  \<open>tool_call["function"]["name"]\<close> and \<open>tool_call["function"]["arguments"]\<close> (the raw
  argument payload, a string).
\<close>

record tool_call =
  call_id :: string
  call_type :: string
  function_name :: string
  function_arguments :: string

text \<open>
  A message of the transcript is a JSON object. \<open>role\<close> is \<open>msg.get("role")\<close>
  (\<open>None\<close> when the key is absent); \<open>content\<close> and \<open>tool_calls\<close> keep the difference
  between an absent key and \<open>null\<close>, which the code observes.
\<close>

record message =
  role :: "string option"
  content :: "string slot"
  tool_calls :: "tool_call list slot"
  tool_call_id :: "string option"

section \<open>End-of-conversation detector (helpers/llm\_utils.py)\<close>

definition end_phrases :: "string list" where
  "end_phrases =
    [''goodbye'', ''bye'', ''thank you for chatting'', ''have a great day'',
     ''is there anything else'', ''anything else i can help'', ''end of conversation'',
     ''conversation is complete'', ''conversation has ended'', ''wrapping up'',
     ''summarizing our conversation'', ''conversation summary'']"

text \<open>\<open>any(phrase in content for phrase in end_phrases)\<close>\<close>

definition any_end_phrase :: "string \<Rightarrow> bool" where
  "any_end_phrase c = list_ex (\<lambda>phrase. str_in phrase c) end_phrases"

text \<open>
  The loop \<open>for msg in reversed(recent_messages)\<close>; the argument is the reversed list.
  \<open>msg.get("content", "").lower()\<close> raises AttributeError when the content is \<open>None\<close>.
\<close>

fun scan_recent :: "message list \<Rightarrow> exn + bool" where
  "scan_recent [] = Inr False"
| "scan_recent (msg # rest) =
     (if role msg = Some ''assistant'' then
        (case get_or (content msg) [] of
           None \<Rightarrow> Inl (AttributeError ''NoneType object has no attribute lower'')
         | Some c \<Rightarrow> if any_end_phrase (lower c) then Inr True else scan_recent rest)
      else scan_recent rest)"

definition detect_end_of_conversation :: "message list \<Rightarrow> exn + bool" where
  "detect_end_of_conversation conversation_history =
     (if length conversation_history < 3 then Inr False
      else scan_recent (rev (drop (length conversation_history - 5) conversation_history)))"

text \<open>
  The reading of the detector's contract: an assistant message whose lower-cased content
  contains one of the phrases.
\<close>

definition farewell_message :: "message \<Rightarrow> bool" where
  "farewell_message m =
     (role m = Some ''assistant'' \<and>
      (case get_or (content m) [] of None \<Rightarrow> False | Some c \<Rightarrow> any_end_phrase (lower c)))"

definition closing_text :: string where
  "closing_text = ''Thank you for chatting with me today... Have a great day!''"

section \<open>JSON values\<close>

text \<open>
  What \<open>json.loads\<close> returns and \<open>json.dumps\<close> accepts. \<open>JFloat q\<close> is a Python float
  (the rational is the number it stands for; rounding is not modelled). A JSON object is
  an association list in key order.
\<close>

datatype json =
    JNull
  | JBool bool
  | JInt int
  | JFloat rat
  | JStr string
  | JArr "json list"
  | JObj "(string \<times> json) list"

text \<open>Python's truth value of a JSON value (\<open>if not x\<close>).\<close>

fun truthy :: "json \<Rightarrow> bool" where
  "truthy JNull = False"
| "truthy (JBool b) = b"
| "truthy (JInt n) = (n \<noteq> 0)"
| "truthy (JFloat q) = (q \<noteq> 0)"
| "truthy (JStr s) = (s \<noteq> [])"
| "truthy (JArr xs) = (xs \<noteq> [])"
| "truthy (JObj kvs) = (kvs \<noteq> [])"

text \<open>\<open>d[key]\<close>, \<open>d.get(key)\<close>, \<open>d.get(key, default)\<close> and \<open>d[key] = v\<close> on a parsed value.\<close>

fun get_item :: "json \<Rightarrow> string \<Rightarrow> exn + json" where
  "get_item (JObj kvs) k =
     (case map_of kvs k of None \<Rightarrow> Inl (KeyError k) | Some v \<Rightarrow> Inr v)"
| "get_item v k = Inl (TypeError ''value is not subscriptable with a string key'')"

fun dict_get :: "json \<Rightarrow> string \<Rightarrow> json \<Rightarrow> exn + json" where
  "dict_get (JObj kvs) k d = (case map_of kvs k of None \<Rightarrow> Inr d | Some v \<Rightarrow> Inr v)"
| "dict_get v k d = Inl (AttributeError ''object has no attribute get'')"

fun set_item :: "json \<Rightarrow> string \<Rightarrow> json \<Rightarrow> exn + json" where
  "set_item (JObj kvs) k v = Inr (JObj (AList.update k v kvs))"
| "set_item x k v = Inl (TypeError ''object does not support item assignment'')"

section \<open>Inventory lookup: fetch\_cars (helpers/llm\_utils.py)\<close>

text \<open>
  A row of the \<open>car_inventory\<close> table, with the columns \<open>to_dict\<close> reads. The table is
  declared in models/sql\_models.py, outside the two modules modelled here: the columns
  are typed as the tool schema and \<open>to_dict\<close> use them, \<open>price\<close> an exact decimal,
  \<open>created_at\<close> nullable (a time stamp, here a number).
\<close>

type_synonym datetime = int

record CarInventory =
  stock_number :: string
  vin :: string
  make' :: string
  model :: string
  year :: int
  price :: rat
  mileage :: int
  color :: string
  description :: string
  created_at :: "datetime option"

text \<open>
  The parsed argument payload of a tool call (\<open>func_args\<close>, \<open>filter_params\<close>), read
  through the two tool schemas: every key may be absent, and a key that is present has
  the schema's type (\<open>year\<close> is shared by both schemas).
\<close>

record tool_args =
  arg_make :: "string option"
  arg_model :: "string option"
  arg_year :: "int option"
  arg_max_year :: "int option"
  arg_price :: "rat option"
  arg_max_price :: "rat option"
  arg_mileage :: "int option"
  arg_color :: "string option"
  arg_stock_number :: "string option"
  arg_vin :: "string option"
  arg_car_make :: "string option"
  arg_car_model :: "string option"

text \<open>
  The database engine and the standard library, as parameters: \<open>sql_ilike v pat\<close> is SQL's
  \<open>v ILIKE pat\<close>, \<open>isoformat\<close> is \<open>datetime.isoformat\<close>.
\<close>

record sql_engine =
  sql_ilike :: "string \<Rightarrow> string \<Rightarrow> bool"
  isoformat :: "datetime \<Rightarrow> string"

text \<open>
  One \<open>if "key" in filter_params and filter_params["key"]: query = query.filter(...)\<close>
  for a string key, and one \<open>if "key" in filter_params and filter_params["key"] != -1\<close>
  for a numeric key: the condition the row has to meet (\<open>True\<close> when no filter is added).
\<close>

definition string_filter :: "string option \<Rightarrow> (string \<Rightarrow> bool) \<Rightarrow> bool" where
  "string_filter param test =
     (case param of None \<Rightarrow> True | Some s \<Rightarrow> if s \<noteq> [] then test s else True)"

definition numeric_filter :: "('a::{uminus,one}) option \<Rightarrow> ('a \<Rightarrow> bool) \<Rightarrow> bool" where
  "numeric_filter param test =
     (case param of None \<Rightarrow> True | Some n \<Rightarrow> if n \<noteq> - 1 then test n else True)"

definition row_matches :: "sql_engine \<Rightarrow> tool_args \<Rightarrow> CarInventory \<Rightarrow> bool" where
  "row_matches db filter_params car \<longleftrightarrow>
     string_filter (arg_make filter_params) (\<lambda>s. sql_ilike db (make' car) (''%'' @ s @ ''%'')) \<and>
     string_filter (arg_model filter_params) (\<lambda>s. sql_ilike db (model car) (''%'' @ s @ ''%'')) \<and>
     string_filter (arg_color filter_params) (\<lambda>s. sql_ilike db (color car) (''%'' @ s @ ''%'')) \<and>
     string_filter (arg_stock_number filter_params) (\<lambda>s. stock_number car = s) \<and>
     string_filter (arg_vin filter_params) (\<lambda>s. vin car = s) \<and>
     numeric_filter (arg_year filter_params) (\<lambda>n. year car \<ge> n) \<and>
     numeric_filter (arg_max_year filter_params) (\<lambda>n. year car \<le> n) \<and>
     numeric_filter (arg_price filter_params) (\<lambda>n. price car \<ge> n) \<and>
     numeric_filter (arg_max_price filter_params) (\<lambda>n. price car \<le> n) \<and>
     numeric_filter (arg_mileage filter_params) (\<lambda>n. mileage car \<le> n)"

definition to_dict :: "sql_engine \<Rightarrow> CarInventory \<Rightarrow> json" where
  "to_dict db car =
     JObj [(''stock_number'', JStr (stock_number car)),
           (''vin'', JStr (vin car)),
           (''make'', JStr (make' car)),
           (''model'', JStr (model car)),
           (''year'', JInt (year car)),
           (''price'', JFloat (price car)),
           (''mileage'', JInt (mileage car)),
           (''color'', JStr (color car)),
           (''description'', JStr (description car)),
           (''created_at'',
              (case created_at car of None \<Rightarrow> JNull | Some t \<Rightarrow> JStr (isoformat db t)))]"

text \<open>\<open>fetch_cars\<close>: the rows of the table that pass every filter, in table order.\<close>

definition fetch_cars :: "sql_engine \<Rightarrow> CarInventory list \<Rightarrow> tool_args \<Rightarrow> json list" where
  "fetch_cars db table filter_params =
     map (to_dict db) (filter (row_matches db filter_params) table)"

section \<open>External collaborators and the state they change\<close>

text \<open>
  The tool schemas offered with a completion request (the list \<open>tools\<close> of
  routes/all\_routes.py), without their descriptions.
\<close>

record tool_schema =
  schema_name :: string
  schema_properties :: "(string \<times> string) list"
  schema_required :: "string list"

definition tools :: "tool_schema list" where
  "tools =
    [\<lparr>schema_name = ''fetch_cars'',
      schema_properties =
        [(''make'', ''string''), (''model'', ''string''), (''year'', ''integer''),
         (''max_year'', ''integer''), (''price'', ''number''), (''max_price'', ''number''),
         (''mileage'', ''integer''), (''color'', ''string''), (''stock_number'', ''string''),
         (''vin'', ''string'')],
      schema_required = [''make'', ''model'']\<rparr>,
     \<lparr>schema_name = ''find_car_review_videos'',
      schema_properties =
        [(''car_make'', ''string''), (''car_model'', ''string''), (''year'', ''integer'')],
      schema_required = [''car_make'', ''car_model'']\<rparr>]"

text \<open>
  The keyword arguments of \<open>client.chat.completions.create\<close>; an argument that is not
  passed is \<open>None\<close>.
\<close>

record completion_request =
  req_model :: string
  req_messages :: "message list"
  req_tools :: "tool_schema list option"
  req_response_format :: "string option"
  req_max_completion_tokens :: "nat option"
  req_reasoning_effort :: "string option"

text \<open>
  What the code reads of a completion: \<open>choices[0].message.content\<close>,
  \<open>choices[0].message.tool_calls\<close> and \<open>usage\<close>.
\<close>

record token_usage =
  prompt_tokens :: nat
  completion_tokens :: nat

record completion =
  message_content :: "string option"
  message_tool_calls :: "tool_call list option"
  usage :: token_usage

text \<open>An item of a video search, as \<open>find_car_review_videos\<close> reads it.\<close>

record video_item =
  video_id :: string
  video_title :: string
  video_description :: string
  video_thumbnail :: string

text \<open>A row of \<open>AutoLeadInteractionDetails\<close>, as \<open>save_summary_to_db\<close> fills it.\<close>

record interaction =
  conversation_summary :: json
  sentiment :: json
  product_keywords :: json
  priority_flag :: bool
  next_steps_recommendation :: json

text \<open>
  Everything outside the process, as parameters of the model. Each is asked at most once
  per call site and answers with a value or with the exception the client raises:
  \<^item> \<open>chat_completion\<close>: the model API;
  \<^item> \<open>loads_args\<close>: \<open>json.loads\<close> on the argument payload of a tool call, its result read
    through the tool schemas; \<open>json_loads\<close>: \<open>json.loads\<close> elsewhere; \<open>json_dumps\<close>;
  \<^item> \<open>current_time_formatted\<close>: the wall-clock time in US/Eastern, formatted
    \<open>%Y-%m-%d %H:%M:%S EST\<close> (by either of the two ways the route computes it);
  \<^item> \<open>uuid4\<close>: \<open>str(uuid.uuid4())\<close>;
  \<^item> \<open>youtube_api_key\<close>: \<open>os.getenv("YOUTUBE_API_KEY")\<close>; \<open>youtube_search\<close>: building the
    client, running the search for a query and reading the items of its answer;
  \<^item> \<open>store_analytics\<close>: \<open>calculate_token_cost\<close> followed by \<open>store_request_analytics\<close>
    (helpers/token\_utils.py and services/analytics\_service.py, modules of their own);
    \<open>None\<close> when neither raises;
  \<^item> \<open>db_commit\<close>: \<open>db.session.commit()\<close> on the pending rows, \<open>None\<close> when it succeeds;
  \<^item> \<open>engine\<close>: the database engine.
\<close>

record env =
  chat_completion :: "completion_request \<Rightarrow> exn + completion"
  loads_args :: "string \<Rightarrow> exn + tool_args"
  json_loads :: "string \<Rightarrow> exn + json"
  json_dumps :: "json \<Rightarrow> string"
  current_time_formatted :: string
  uuid4 :: string
  youtube_api_key :: "string option"
  youtube_search :: "string \<Rightarrow> exn + video_item list"
  store_analytics :: "token_usage \<Rightarrow> exn option"
  db_commit :: "interaction list \<Rightarrow> exn option"
  engine :: sql_engine

text \<open>The calls made to the outside, in the order they are made.\<close>

datatype event =
    ModelCall completion_request
  | ToolExecuted string tool_args
  | AnalyticsCall token_usage
  | DbCommit "interaction list"
  | DbRollback

text \<open>
  The state outside the request: the inventory table, the committed interaction rows, the
  rows added to the database session and not yet committed, and the trace of calls.
\<close>

record world =
  inventory :: "CarInventory list"
  interactions :: "interaction list"
  session_new :: "interaction list"
  trace :: "event list"

definition emit :: "event \<Rightarrow> world \<Rightarrow> world" where
  "emit e w = w\<lparr>trace := trace w @ [e]\<rparr>"

section \<open>Review-video search: find\_car\_review\_videos (helpers/llm\_utils.py)\<close>

text \<open>\<open>str(n)\<close> for an integer, and \<open>f"{x}"\<close> for a string that may be \<open>None\<close>.\<close>

fun str_of_nat :: "nat \<Rightarrow> string" where
  "str_of_nat n =
     (if n < 10 then [''0123456789'' ! n]
      else str_of_nat (n div 10) @ [''0123456789'' ! (n mod 10)])"

definition str_of_int :: "int \<Rightarrow> string" where
  "str_of_int i = (if i < 0 then ''-'' @ str_of_nat (nat (- i)) else str_of_nat (nat i))"

definition fstr :: "string option \<Rightarrow> string" where
  "fstr x = (case x of None \<Rightarrow> ''None'' | Some s \<Rightarrow> s)"

definition search_query :: "string option \<Rightarrow> string option \<Rightarrow> int option \<Rightarrow> string" where
  "search_query car_make car_model yr =
     fstr car_make @ '' '' @ fstr car_model @
     (case yr of None \<Rightarrow> [] | Some y \<Rightarrow> if y \<noteq> 0 then '' '' @ str_of_int y else []) @
     '' review''"

definition video_dict :: "video_item \<Rightarrow> json" where
  "video_dict item =
     JObj [(''id'', JStr (video_id item)),
           (''title'', JStr (video_title item)),
           (''description'', JStr (video_description item)),
           (''thumbnail'', JStr (video_thumbnail item)),
           (''url'', JStr (''https://www.youtube.com/embed/'' @ video_id item))]"

definition find_car_review_videos ::
  "env \<Rightarrow> string option \<Rightarrow> string option \<Rightarrow> int option \<Rightarrow> json" where
  "find_car_review_videos ev car_make car_model yr =
     (if youtube_api_key ev = None \<or> youtube_api_key ev = Some [] then
        JObj [(''videos'', JArr []),
              (''error'', JStr (''YouTube API key not configured. '' @
                                ''Please set the YOUTUBE_API_KEY environment variable.''))]
      else
        (case youtube_search ev (search_query car_make car_model yr) of
           Inl e \<Rightarrow>
             JObj [(''videos'', JArr []),
                   (''error'', JStr (''Failed to search for car review videos: '' @ str_of_exn e))]
         | Inr items \<Rightarrow> JObj [(''videos'', JArr (map video_dict items))]))"

section \<open>Summary generator (helpers/llm\_utils.py)\<close>

text \<open>
  \<open>save_summary_to_db\<close>. The row is built inside the \<open>try\<close>: a key that is missing, or
  \<open>insights\<close> that is not an object, raises there. Any exception, the commit's included,
  is caught: the session is rolled back and the result is \<open>False\<close>.
\<close>

definition new_interaction :: "json \<Rightarrow> exn + interaction" where
  "new_interaction summary_data =
     (case get_item summary_data ''summary'' of
        Inl e \<Rightarrow> Inl e
      | Inr s \<Rightarrow>
     (case get_item summary_data ''sentiment'' of
        Inl e \<Rightarrow> Inl e
      | Inr sen \<Rightarrow>
     (case get_item summary_data ''keywords'' of
        Inl e \<Rightarrow> Inl e
      | Inr kw \<Rightarrow>
     (case get_item summary_data ''insights'' of
        Inl e \<Rightarrow> Inl e
      | Inr ins \<Rightarrow>
     (case dict_get ins ''urgency'' JNull of
        Inl e \<Rightarrow> Inl e
      | Inr urgency \<Rightarrow>
     (case dict_get ins ''additional_notes'' (JStr []) of
        Inl e \<Rightarrow> Inl e
      | Inr notes \<Rightarrow>
          Inr \<lparr>conversation_summary = s, sentiment = sen, product_keywords = kw,
               priority_flag = (urgency = JStr ''high''),
               next_steps_recommendation = notes\<rparr>))))))"

definition rollback :: "world \<Rightarrow> world" where
  "rollback w = emit DbRollback (w\<lparr>session_new := []\<rparr>)"

definition save_summary_to_db :: "env \<Rightarrow> world \<Rightarrow> json \<Rightarrow> bool \<times> world" where
  "save_summary_to_db ev w summary_data =
     (case new_interaction summary_data of
        Inl e \<Rightarrow> (False, rollback w)
      | Inr row \<Rightarrow>
          (let pending = session_new w @ [row];
               w1 = emit (DbCommit pending) (w\<lparr>session_new := pending\<rparr>)
           in (case db_commit ev pending of
                 Some e \<Rightarrow> (False, rollback w1)
               | None \<Rightarrow>
                   (True, w1\<lparr>interactions := interactions w1 @ pending, session_new := []\<rparr>))))"

text \<open>
  The \<open>try\<close> block of \<open>generate_conversation_summary\<close>: one structured-output request,
  \<open>json.loads\<close> of its content (\<open>None\<close> content is a type error), the conversation id
  stored into the parsed value, the analytics, the save (whose result is not read).
\<close>

definition summary_prompt_content :: string where
  \<open>summary_prompt_content = concat
    [''\<newline>'',
     ''        You are an expert at analyzing car dealership conversations and creating concise, informative summaries.\<newline>'',
     ''        \<newline>'',
     ''        Analyze the provided conversation and create a summary with the following components:\<newline>'',
     ''        \<newline>'',
     ''        1. Overall sentiment analysis (positive, neutral, or negative)\<newline>'',
     ''        2. Key tags/keywords extracted from the conversation (e.g., \'new model\', \'financing\', \'trade-in\', \'service appointment\')\<newline>'',
     ''        3. A concise summary of the main discussion points and any relevant customer information\<newline>'',
     ''        4. A follow-up routing recommendation (Sales, Service, Management, HR, Finance, or Parts)\<newline>'',
     ''        5. Additional insights such as urgency or potential upsell opportunities\<newline>'',
     ''        \<newline>'',
     ''        Format your response as a JSON object with the following structure:\<newline>'',
     ''        {\<newline>'',
     ''            "sentiment": "positive/neutral/negative",\<newline>'',
     ''            "keywords": ["keyword1", "keyword2", ...],\<newline>'',
     ''            "summary": "Concise summary text",\<newline>'',
     ''            "department": "Sales/Service/Management/HR/Finance/Parts",\<newline>'',
     ''            "insights": {\<newline>'',
     ''                "urgency": "high/medium/low",\<newline>'',
     ''                "upsell_opportunity": true/false,\<newline>'',
     ''                "customer_interest": "high/medium/low",\<newline>'',
     ''                "additional_notes": "Any other relevant information"\<newline>'',
     ''            }\<newline>'',
     ''        }\<newline>'',
     ''        \<newline>'',
     ''        Be thorough but concise in your analysis.\<newline>'',
     ''        '']\<close>

definition summary_prompt :: message where
  "summary_prompt =
     \<lparr>role = Some ''system'', content = Val summary_prompt_content,
      tool_calls = Absent, tool_call_id = None\<rparr>"

definition filtered_history :: "message list \<Rightarrow> message list" where
  "filtered_history conversation_history =
     filter (\<lambda>msg. (role msg = Some ''user'' \<or> role msg = Some ''assistant'') \<and>
                   \<not> (role msg = Some ''assistant'' \<and> has_key (tool_calls msg)))
       conversation_history"

definition summary_request :: "message list \<Rightarrow> completion_request" where
  "summary_request conversation_history =
     \<lparr>req_model = ''o3-mini-2025-01-31'',
      req_messages = summary_prompt # filtered_history conversation_history,
      req_tools = None,
      req_response_format = Some ''json_object'',
      req_max_completion_tokens = Some 1000,
      req_reasoning_effort = Some ''low''\<rparr>"

definition loads_content :: "env \<Rightarrow> string option \<Rightarrow> exn + json" where
  "loads_content ev c =
     (case c of
        None \<Rightarrow> Inl (TypeError ''the JSON object must be str, bytes or bytearray, not NoneType'')
      | Some s \<Rightarrow> json_loads ev s)"

definition summary_try :: "env \<Rightarrow> world \<Rightarrow> message list \<Rightarrow> json \<Rightarrow> (exn + json) \<times> world" where
  "summary_try ev w conversation_history conversation_id =
     (let w1 = emit (ModelCall (summary_request conversation_history)) w in
      (case chat_completion ev (summary_request conversation_history) of
         Inl e \<Rightarrow> (Inl e, w1)
       | Inr response \<Rightarrow>
           (case loads_content ev (message_content response) of
              Inl e \<Rightarrow> (Inl e, w1)
            | Inr parsed \<Rightarrow>
                (case set_item parsed ''conversation_id'' conversation_id of
                   Inl e \<Rightarrow> (Inl e, w1)
                 | Inr summary_json \<Rightarrow>
                     (let w2 = emit (AnalyticsCall (usage response)) w1 in
                      (case store_analytics ev (usage response) of
                         Some e \<Rightarrow> (Inl e, w2)
                       | None \<Rightarrow>
                           (Inr summary_json,
                            snd (save_summary_to_db ev w2 summary_json))))))))"

text \<open>The summary returned by the \<open>except\<close> branch.\<close>

definition default_summary :: "json \<Rightarrow> exn \<Rightarrow> json" where
  "default_summary conversation_id e =
     JObj [(''conversation_id'', conversation_id),
           (''sentiment'', JStr ''neutral''),
           (''keywords'', JArr [JStr ''error'']),
           (''summary'', JStr ''Error generating summary. Please try again.''),
           (''department'', JStr ''Sales''),
           (''insights'',
              JObj [(''urgency'', JStr ''low''),
                    (''upsell_opportunity'', JBool False),
                    (''customer_interest'', JStr ''unknown''),
                    (''additional_notes'', JStr (''Error: '' @ str_of_exn e))])]"

definition generate_conversation_summary ::
  "env \<Rightarrow> world \<Rightarrow> message list \<Rightarrow> json \<Rightarrow> (exn + json) \<times> world" where
  "generate_conversation_summary ev w conversation_history conversation_id =
     (let cid = (if \<not> truthy conversation_id then JStr (uuid4 ev) else conversation_id) in
      case summary_try ev w conversation_history cid of
        (Inl e, w') \<Rightarrow> (Inr (default_summary cid e), w')
      | (Inr summary_json, w') \<Rightarrow> (Inr summary_json, w'))"

section \<open>The routes (routes/all\_routes.py)\<close>

text \<open>
  The JSON body of a request (\<open>data\<close>), with the keys the routes read. \<open>Null\<close> for
  \<open>conversation_history\<close> stands for any value that is not a list. A route takes
  \<open>None\<close> when the parsed body is falsy (\<open>if not data\<close>: \<open>null\<close>, an empty object, an
  empty list). A request whose body is absent or is not JSON, on which \<open>get_json\<close> itself
  raises, is not a value of this type.
\<close>

record request =
  data_message :: "string slot"
  data_conversation_history :: "message list slot"
  data_conversation_id :: json

datatype body =
    ErrorBody string
  | ChatBody string "message list" bool json
  | ToolResultBody string "message list" json
  | SummaryBody json

record response =
  status :: nat
  body :: body

definition error_response :: "nat \<Rightarrow> string \<Rightarrow> response" where
  "error_response code msg = \<lparr>status = code, body = ErrorBody msg\<rparr>"

text \<open>The handler of every route: \<open>except Exception as e\<close> answers 500 with \<open>str(e)\<close>.\<close>

definition exception_response :: "exn \<Rightarrow> response" where
  "exception_response e = error_response 500 (str_of_exn e)"

text \<open>\<open>str.strip()\<close> on ASCII white space.\<close>

definition is_space :: "char \<Rightarrow> bool" where
  "is_space c \<longleftrightarrow>
     c \<in> set [CHR 0x20, CHR 0x09, CHR 0x0A, CHR 0x0B, CHR 0x0C, CHR 0x0D,
               CHR 0x1C, CHR 0x1D, CHR 0x1E, CHR 0x1F]"

definition strip :: "string \<Rightarrow> string" where
  "strip s = rev (dropWhile is_space (rev (dropWhile is_space s)))"

subsection \<open>System-context insertion (the first step of /chat)\<close>

definition system_message_content :: string where
  \<open>system_message_content = concat
    ['' \<newline>'',
     ''                You are Patricia, a knowledgeable and friendly customer support agent at Nissan of Hendersonville, a family-owned and operated Nissan dealership in Hendersonville, North Carolina.\<newline>'',
     ''                \<newline>'',
     ''                IMPORTANT: You must ONLY provide information that is explicitly stated in this system message. DO NOT make up or guess any information about the dealership, including:\<newline>'',
     ''                - Business hours\<newline>'',
     ''                - Address\<newline>'',
     ''                - Phone number\<newline>'',
     ''                - Website\<newline>'',
     ''                - Staff names\<newline>'',
     ''                - Available vehicles\<newline>'',
     ''                - Pricing\<newline>'',
     ''                \<newline>'',
     ''                If asked for information not provided in this message, politely inform the customer that you need to verify that information and suggest they call the dealership directly.\<newline>'',
     ''                \<newline>'',
     ''                Your primary responsibilities:\<newline>'',
     ''                - Help customers find the perfect Nissan vehicle that meets their needs and budget\<newline>'',
     ''                - Provide accurate information about Nissan models, features, pricing, and availability\<newline>'',
     ''                - Assist with scheduling test drives and answering questions about the car buying process\<newline>'',
     ''                - Represent the dealership with professionalism and enthusiasm\<newline>'',
     ''                - Guide customers that need to schedule a service appointment\<newline>'',
     ''                - Handle customer complaints and provide solutions\<newline>'',
     ''                \<newline>'',
     ''                Company Information (VERIFY ALL INFORMATION BEFORE PROVIDING):\<newline>'',
     ''                - Name: Nissan of Hendersonville\<newline>'',
     ''                - Address: 1340 Spartanburg Hwy, Hendersonville, NC 28792\<newline>'',
     ''                - Phone: +1 (828) 697-2222\<newline>'',
     ''                - Website: https://www.nissanofhendersonville.com\<newline>'',
     ''                \<newline>'',
     ''                Business Hours (VERIFY ALL INFORMATION BEFORE PROVIDING):\<newline>'',
     ''                - Monday-Saturday: 9 AM - 7 PM\<newline>'',
     ''                - Sunday: Closed\<newline>'',
     ''                \<newline>'',
     ''                When customers ask about inventory, use the fetch_cars function to provide accurate, up-to-date information. Always supply default values for any missing filters: use -1 for numeric fields and an empty string for text fields.\<newline>'',
     ''\<newline>'',
     ''                If a customer shows interest in a specific car or asks to see reviews or videos about a car, use the find_car_review_videos function to provide a list of car review videos on YouTube. This function requires the car_make and car_model parameters, and optionally accepts a year parameter.\<newline>'',
     ''                \<newline>'',
     ''                Remember that you are representing a family-owned business that prides itself on customer service and helping customers find the perfect car. Be helpful, friendly, and professional in all interactions.\<newline>'',
     ''                \<newline>'',
     ''                NEVER schedule appointments for days when the dealership is closed (like Sundays).\<newline>'',
     ''                NEVER provide information about test drives without verifying the customer\'s contact information first.\<newline>'',
     ''                NEVER make up information about the dealership or its staff.\<newline>'',
     ''                \<newline>'',
     ''                IMPORTANT - Time Awareness:\<newline>'',
     ''                You will receive a message with the current time in EST. Use this information to:\<newline>'',
     ''                1. Determine if the dealership is currently open or closed\<newline>'',
     ''                2. Avoid scheduling appointments outside of business hours\<newline>'',
     ''                3. Provide accurate information about when the dealership will be open next\<newline>'',
     ''                4. Consider the day of the week when discussing availability\<newline>'',
     ''                5. Dont mention the service hours or business hours unless asked or the customer asks about booking an appointment or test drive.\<newline>'',
     ''                \<newline>'',
     ''                IMPORTANT - End of Conversation:\<newline>'',
     ''                When you detect that the conversation is coming to an end (e.g., the customer says goodbye, thanks you, or indicates they have no more questions), \<newline>'',
     ''                you should explicitly signal the end of the conversation with a clear closing message such as:\<newline>'',
     ''                "Thank you for chatting with me today. I\'m glad I could help you with your questions about Nissan vehicles. Have a great day!"\<newline>'',
     ''                \<newline>'',
     ''                This helps our system know when to generate a summary of the conversation.\<newline>'',
     ''                '']\<close>

definition system_message :: message where
  "system_message =
     \<lparr>role = Some ''system'', content = Val system_message_content,
      tool_calls = Absent, tool_call_id = None\<rparr>"

definition time_context_message :: "env \<Rightarrow> message" where
  "time_context_message ev =
     \<lparr>role = Some ''system'', content = Val (''Current time: '' @ current_time_formatted ev),
      tool_calls = Absent, tool_call_id = None\<rparr>"

text \<open>
  \<open>any(msg.get("role") == "system" and marker in msg.get("content", "") for msg in h)\<close>:
  it stops at the first message that has the marker, and raises a type error on a system
  message whose content is \<open>None\<close> met before that.
\<close>

fun has_marker :: "string \<Rightarrow> message list \<Rightarrow> exn + bool" where
  "has_marker marker [] = Inr False"
| "has_marker marker (msg # rest) =
     (if role msg = Some ''system'' then
        (case get_or (content msg) [] of
           None \<Rightarrow> Inl (TypeError ''argument of type NoneType is not iterable'')
         | Some c \<Rightarrow> if str_in marker c then Inr True else has_marker marker rest)
      else has_marker marker rest)"

definition ensure_system_context :: "env \<Rightarrow> message list \<Rightarrow> exn + message list" where
  "ensure_system_context ev conversation_history =
     (case has_marker ''You are Patricia'' conversation_history of
        Inl e \<Rightarrow> Inl e
      | Inr has_system_message \<Rightarrow>
          (let h1 = (if conversation_history = [] \<or> \<not> has_system_message
                     then system_message # conversation_history
                     else conversation_history)
           in case has_marker ''Current time:'' h1 of
                Inl e \<Rightarrow> Inl e
              | Inr has_time_context \<Rightarrow>
                  Inr (if \<not> has_time_context then h1 @ [time_context_message ev] else h1)))"

subsection \<open>Summary on a detected end of conversation (the last step of both routes)\<close>

text \<open>
  The loop that looks for a conversation id in the system messages: the first system
  message whose content mentions \<open>conversation_id\<close> and parses to an object gives
  \<open>.get("conversation_id")\<close>; a parse that raises is skipped (\<open>except: pass\<close>).
\<close>

fun find_conversation_id :: "env \<Rightarrow> message list \<Rightarrow> exn + json" where
  "find_conversation_id ev [] = Inr JNull"
| "find_conversation_id ev (msg # rest) =
     (if role msg = Some ''system'' then
        (case get_or (content msg) [] of
           None \<Rightarrow> Inl (TypeError ''argument of type NoneType is not iterable'')
         | Some c \<Rightarrow>
             if str_in ''conversation_id'' c then
               (case json_loads ev c of
                  Inr (JObj kvs) \<Rightarrow>
                    Inr (case map_of kvs ''conversation_id'' of None \<Rightarrow> JNull | Some v \<Rightarrow> v)
                | _ \<Rightarrow> find_conversation_id ev rest)
             else find_conversation_id ev rest)
      else find_conversation_id ev rest)"

definition summary_if_ended :: "env \<Rightarrow> world \<Rightarrow> message list \<Rightarrow> (exn + json) \<times> world" where
  "summary_if_ended ev w conversation_history =
     (case detect_end_of_conversation conversation_history of
        Inl e \<Rightarrow> (Inl e, w)
      | Inr False \<Rightarrow> (Inr JNull, w)
      | Inr True \<Rightarrow>
          (case find_conversation_id ev conversation_history of
             Inl e \<Rightarrow> (Inl e, w)
           | Inr conversation_id \<Rightarrow>
               generate_conversation_summary ev w conversation_history conversation_id))"

subsection \<open>POST /chat\<close>

definition chat_request :: "message list \<Rightarrow> completion_request" where
  "chat_request conversation_history =
     \<lparr>req_model = ''o3-mini-2025-01-31'',
      req_messages = conversation_history,
      req_tools = Some tools,
      req_response_format = None,
      req_max_completion_tokens = None,
      req_reasoning_effort = None\<rparr>"

definition assistant_message :: "string \<Rightarrow> tool_call list \<Rightarrow> message" where
  "assistant_message assistant_response calls =
     \<lparr>role = Some ''assistant'', content = Val assistant_response,
      tool_calls = (if calls \<noteq> [] then Val calls else Absent),
      tool_call_id = None\<rparr>"

text \<open>
  What follows the completion: the assistant message (the placeholder when the completion
  carries tool calls), the summary, the answer.
\<close>

definition chat_reply :: "env \<Rightarrow> world \<Rightarrow> message list \<Rightarrow> completion \<Rightarrow> response \<times> world" where
  "chat_reply ev w1 h1 completion =
     (let calls = (case message_tool_calls completion of None \<Rightarrow> [] | Some cs \<Rightarrow> cs);
          assistant_response =
            (case calls of
               [] \<Rightarrow> (case message_content completion of None \<Rightarrow> [] | Some c \<Rightarrow> c)
             | tool_call # _ \<Rightarrow>
                 (case loads_args ev (function_arguments tool_call) of
                    Inl parse_error \<Rightarrow> ''Error parsing tool arguments.''
                  | Inr func_args \<Rightarrow> ''Processing your request...''));
          h2 = h1 @ [assistant_message assistant_response calls]
      in
      (case summary_if_ended ev w1 h2 of
         (Inl e, w2) \<Rightarrow> (exception_response e, w2)
       | (Inr summary, w2) \<Rightarrow>
           (\<lparr>status = 200, body = ChatBody assistant_response h2 (calls \<noteq> []) summary\<rparr>,
            w2)))"

definition chat :: "env \<Rightarrow> world \<Rightarrow> request option \<Rightarrow> response \<times> world" where
  \<open>chat ev w data =
     (case data of
        None \<Rightarrow> (error_response 400 ''Missing JSON body'', w)
      | Some d \<Rightarrow>
          (case get_or (data_message d) [] of
             None \<Rightarrow>
               (exception_response (AttributeError ''NoneType object has no attribute strip''), w)
           | Some raw \<Rightarrow>
               (let user_message = strip raw;
                    conversation_history =
                      (case data_conversation_history d of Val h \<Rightarrow> h | _ \<Rightarrow> [])
                in
                if user_message = [] then (error_response 400 ''No \'message\' provided'', w)
                else
                  (case ensure_system_context ev conversation_history of
                     Inl e \<Rightarrow> (exception_response e, w)
                   | Inr h1 \<Rightarrow>
                       (case chat_completion ev (chat_request h1) of
                          Inl e \<Rightarrow> (exception_response e, emit (ModelCall (chat_request h1)) w)
                        | Inr completion \<Rightarrow>
                            chat_reply ev (emit (ModelCall (chat_request h1)) w) h1
                              completion)))))\<close>

subsection \<open>POST /tool-call-result\<close>

definition truthy_calls :: "tool_call list slot \<Rightarrow> bool" where
  "truthy_calls tc = (case tc of Val (c # cs) \<Rightarrow> True | _ \<Rightarrow> False)"

text \<open>
  \<open>for msg in reversed(conversation_history): if msg.get("role") == "assistant" and
  msg.get("tool_calls"): ...; break\<close>
\<close>

definition find_tool_call_message :: "message list \<Rightarrow> message option" where
  "find_tool_call_message conversation_history =
     find (\<lambda>msg. role msg = Some ''assistant'' \<and> truthy_calls (tool_calls msg))
       (rev conversation_history)"

definition tool_message :: "string \<Rightarrow> string \<Rightarrow> message" where
  "tool_message tcid c =
     \<lparr>role = Some ''tool'', content = Val c, tool_calls = Absent, tool_call_id = Some tcid\<rparr>"

definition final_request :: "message list \<Rightarrow> completion_request" where
  "final_request conversation_history =
     \<lparr>req_model = ''o3-mini-2025-01-31'',
      req_messages = conversation_history,
      req_tools = None,
      req_response_format = None,
      req_max_completion_tokens = None,
      req_reasoning_effort = None\<rparr>"

text \<open>
  The end of the route, written twice in the source (after the fallback and after the
  loop over the tool calls): the final completion, the assistant message appended, the
  summary, the answer.
\<close>

definition final_response_step :: "env \<Rightarrow> world \<Rightarrow> message list \<Rightarrow> response \<times> world" where
  "final_response_step ev w conversation_history =
     (let w1 = emit (ModelCall (final_request conversation_history)) w in
      (case chat_completion ev (final_request conversation_history) of
         Inl e \<Rightarrow> (exception_response e, w1)
       | Inr completion \<Rightarrow>
           (let final_response =
                  (case message_content completion of None \<Rightarrow> [] | Some c \<Rightarrow> c);
                h2 = conversation_history @ [assistant_message final_response []]
            in
            (case summary_if_ended ev w1 h2 of
               (Inl e, w2) \<Rightarrow> (exception_response e, w2)
             | (Inr summary, w2) \<Rightarrow>
                 (\<lparr>status = 200, body = ToolResultBody final_response h2 summary\<rparr>, w2)))))"

text \<open>The loop \<open>for tool_call in tool_call_message["tool_calls"]\<close>.\<close>

fun process_tool_calls ::
  "env \<Rightarrow> world \<Rightarrow> message list \<Rightarrow> tool_call list \<Rightarrow> (response + message list) \<times> world" where
  \<open>process_tool_calls ev w conversation_history [] = (Inr conversation_history, w)\<close>
| \<open>process_tool_calls ev w conversation_history (tool_call # rest) =
     (case loads_args ev (function_arguments tool_call) of
        Inl parse_error \<Rightarrow> (Inl (error_response 400 ''Error parsing tool arguments''), w)
      | Inr func_args \<Rightarrow>
          if function_name tool_call = ''fetch_cars'' then
            process_tool_calls ev (emit (ToolExecuted ''fetch_cars'' func_args) w)
              (conversation_history @
                 [tool_message (call_id tool_call)
                    (json_dumps ev (JArr (fetch_cars (engine ev) (inventory w) func_args)))])
              rest
          else if function_name tool_call = ''find_car_review_videos'' then
            process_tool_calls ev (emit (ToolExecuted ''find_car_review_videos'' func_args) w)
              (conversation_history @
                 [tool_message (call_id tool_call)
                    (json_dumps ev
                       (find_car_review_videos ev (arg_car_make func_args)
                          (arg_car_model func_args) (arg_year func_args)))])
              rest
          else
            (Inl (error_response 400
                    (''Unknown tool '' @ [CHR 0x27] @ function_name tool_call @ [CHR 0x27] @ '' called'')), w))\<close>

text \<open>
  The fallback for a tool-call message without tool calls whose content is the
  placeholder (lines 346 to 441 of the route).
\<close>

definition review_keywords :: "string list" where
  "review_keywords = [''review'', ''reviews'', ''video'', ''videos'', ''watch'', ''see'', ''look at'']"

definition no_args :: tool_args where
  "no_args =
     \<lparr>arg_make = None, arg_model = None, arg_year = None, arg_max_year = None,
      arg_price = None, arg_max_price = None, arg_mileage = None, arg_color = None,
      arg_stock_number = None, arg_vin = None, arg_car_make = None, arg_car_model = None\<rparr>"

definition fallback_fetch_args :: tool_args where
  "fallback_fetch_args =
     no_args\<lparr>arg_make := Some ''Nissan'', arg_model := Some [], arg_year := Some (- 1),
       arg_max_year := Some (- 1), arg_price := Some (- 1), arg_max_price := Some (- 1),
       arg_mileage := Some (- 1), arg_color := Some [], arg_stock_number := Some [],
       arg_vin := Some []\<rparr>"

definition fallback_video_args :: tool_args where
  "fallback_video_args =
     no_args\<lparr>arg_car_make := Some ''Nissan'', arg_car_model := Some ''Kicks'',
       arg_year := Some 2025\<rparr>"

definition fallback :: "env \<Rightarrow> world \<Rightarrow> message list \<Rightarrow> message \<Rightarrow> response \<times> world" where
  "fallback ev w conversation_history tool_call_message =
     (case get_or (content tool_call_message) [] of
        None \<Rightarrow> (exception_response (AttributeError ''NoneType object has no attribute lower''), w)
      | Some c \<Rightarrow>
          if list_ex (\<lambda>keyword. str_in keyword (lower c)) review_keywords then
            final_response_step ev
              (emit (ToolExecuted ''find_car_review_videos'' fallback_video_args) w)
              (conversation_history @
                 [tool_message ''fallback_tool_call''
                    (json_dumps ev
                       (find_car_review_videos ev (Some ''Nissan'') (Some ''Kicks'') (Some 2025)))])
          else
            final_response_step ev
              (emit (ToolExecuted ''fetch_cars'' fallback_fetch_args) w)
              (conversation_history @
                 [tool_message ''fallback_tool_call''
                    (json_dumps ev
                       (JArr (fetch_cars (engine ev) (inventory w) fallback_fetch_args)))]))"

definition tool_call_result :: "env \<Rightarrow> world \<Rightarrow> request option \<Rightarrow> response \<times> world" where
  "tool_call_result ev w data =
     (case data of
        None \<Rightarrow> (error_response 400 ''Missing JSON body'', w)
      | Some d \<Rightarrow>
          (case get_or (data_conversation_history d) [] of
             None \<Rightarrow> (error_response 400 ''Invalid conversation history format'', w)
           | Some conversation_history \<Rightarrow>
               (case find_tool_call_message conversation_history of
                  None \<Rightarrow>
                    (error_response 400 ''No assistant message found in conversation history'', w)
                | Some tool_call_message \<Rightarrow>
                    if \<not> truthy_calls (tool_calls tool_call_message) then
                      (if content tool_call_message = Val ''Processing your request...''
                       then fallback ev w conversation_history tool_call_message
                       else (error_response 400 ''No tool call found in conversation history'', w))
                    else
                      (case tool_calls tool_call_message of
                         Absent \<Rightarrow> (exception_response (KeyError ''tool_calls''), w)
                       | Null \<Rightarrow>
                           (exception_response (TypeError ''NoneType object is not iterable''), w)
                       | Val calls \<Rightarrow>
                           (case process_tool_calls ev w conversation_history calls of
                              (Inl resp, w1) \<Rightarrow> (resp, w1)
                            | (Inr h1, w1) \<Rightarrow> final_response_step ev w1 h1)))))"

subsection \<open>POST /generate-summary\<close>

definition generate_summary :: "env \<Rightarrow> world \<Rightarrow> request option \<Rightarrow> response \<times> world" where
  "generate_summary ev w data =
     (case data of
        None \<Rightarrow> (error_response 400 ''Missing JSON body'', w)
      | Some d \<Rightarrow>
          (case get_or (data_conversation_history d) [] of
             None \<Rightarrow> (error_response 400 ''Invalid conversation history format'', w)
           | Some conversation_history \<Rightarrow>
               (case generate_conversation_summary ev w conversation_history
                       (data_conversation_id d) of
                  (Inl e, w1) \<Rightarrow> (exception_response e, w1)
                | (Inr summary, w1) \<Rightarrow> (\<lparr>status = 200, body = SummaryBody summary\<rparr>, w1))))"

section \<open>The tool-result round trip, as the specification reads it\<close>

text \<open>
  What section 4.3 of the specification expects of one pending tool call: the call can be
  dispatched (its payload parses and its name is registered), the result of the named
  tool on the parsed arguments, the tool message that answers the call, and the call made
  to the tool. The route is compared with these below.
\<close>

definition dispatchable :: "env \<Rightarrow> tool_call \<Rightarrow> bool" where
  "dispatchable ev c \<longleftrightarrow>
     (case loads_args ev (function_arguments c) of Inl e \<Rightarrow> False | Inr a \<Rightarrow> True) \<and>
     (function_name c = ''fetch_cars'' \<or> function_name c = ''find_car_review_videos'')"

definition parsed_args :: "env \<Rightarrow> tool_call \<Rightarrow> tool_args" where
  "parsed_args ev c =
     (case loads_args ev (function_arguments c) of Inl e \<Rightarrow> no_args | Inr a \<Rightarrow> a)"

definition tool_result :: "env \<Rightarrow> CarInventory list \<Rightarrow> tool_call \<Rightarrow> json" where
  "tool_result ev table c =
     (if function_name c = ''fetch_cars''
      then JArr (fetch_cars (engine ev) table (parsed_args ev c))
      else find_car_review_videos ev (arg_car_make (parsed_args ev c))
             (arg_car_model (parsed_args ev c)) (arg_year (parsed_args ev c)))"

definition tool_response_message :: "env \<Rightarrow> CarInventory list \<Rightarrow> tool_call \<Rightarrow> message" where
  "tool_response_message ev table c =
     \<lparr>role = Some ''tool'', content = Val (json_dumps ev (tool_result ev table c)),
      tool_calls = Absent, tool_call_id = Some (call_id c)\<rparr>"

definition tool_event :: "env \<Rightarrow> tool_call \<Rightarrow> event" where
  "tool_event ev c = ToolExecuted (function_name c) (parsed_args ev c)"

text \<open>
  The calls that summary generation may make: one completion request for the summary
  prompt, analytics, commit and rollback; no tool.
\<close>

fun summary_event :: "message list \<Rightarrow> event \<Rightarrow> bool" where
  "summary_event h (ModelCall r) = (r = summary_request h)"
| "summary_event h (ToolExecuted n a) = False"
| "summary_event h (AnalyticsCall u) = True"
| "summary_event h (DbCommit rows) = True"
| "summary_event h DbRollback = True"

section \<open>Sample values\<close>

definition user_msg :: "string \<Rightarrow> message" where
  "user_msg s = \<lparr>role = Some ''user'', content = Val s, tool_calls = Absent, tool_call_id = None\<rparr>"

definition assistant_msg :: "string \<Rightarrow> message" where
  "assistant_msg s =
     \<lparr>role = Some ''assistant'', content = Val s, tool_calls = Absent, tool_call_id = None\<rparr>"

text \<open>
  A stand-in database engine (case-insensitive containment for \<open>ILIKE\<close> with a
  \<open>%s%\<close> pattern, a fixed time stamp), an inventory row for a stock number and a model,
  and the arguments with every filter switched off.
\<close>

definition sample_engine :: sql_engine where
  "sample_engine =
     \<lparr>sql_ilike = (\<lambda>v pat. str_in (lower (filter (\<lambda>c. c \<noteq> CHR ''%'') pat)) (lower v)),
      isoformat = (\<lambda>t. ''2025-03-01T09:30:00'')\<rparr>"

definition sample_car :: "string \<Rightarrow> string \<Rightarrow> CarInventory" where
  "sample_car sn mdl =
     \<lparr>stock_number = sn, vin = ''1N4BL4BV5RN000001'', make' = ''Nissan'', model = mdl,
      year = 2024, price = 25999, mileage = 12, color = ''Red'',
      description = ''New arrival'', created_at = Some 0\<rparr>"

definition sentinel_args :: tool_args where
  "sentinel_args =
     no_args\<lparr>arg_make := Some [], arg_model := Some [], arg_year := Some (- 1),
       arg_max_year := Some (- 1), arg_price := Some (- 1), arg_max_price := Some (- 1),
       arg_mileage := Some (- 1), arg_color := Some [], arg_stock_number := Some [],
       arg_vin := Some []\<rparr>"

text \<open>
  Stand-ins for the collaborators: a model that answers every request with the same
  sentence and no tool call, a parser that knows the empty object, no video API key, a
  database that commits.
\<close>

definition sample_completion :: completion where
  "sample_completion =
     \<lparr>message_content = Some ''We have two Nissan models in stock.'',
      message_tool_calls = None,
      usage = \<lparr>prompt_tokens = 120, completion_tokens = 15\<rparr>\<rparr>"

definition sample_env :: env where
  "sample_env =
     \<lparr>chat_completion = (\<lambda>req. Inr sample_completion),
      loads_args = (\<lambda>s. if s = ''{}'' then Inr no_args
                           else Inl (ExternalError ''Expecting value: line 1 column 1 (char 0)'')),
      json_loads = (\<lambda>s. if s = ''{}'' then Inr (JObj [])
                           else Inl (ExternalError ''Expecting value: line 1 column 1 (char 0)'')),
      json_dumps = (\<lambda>j. if j = JArr [] then ''[]'' else ''[...]''),
      current_time_formatted = ''2025-03-01 09:30:00 EST'',
      uuid4 = ''123e4567-e89b-42d3-a456-426614174000'',
      youtube_api_key = None,
      youtube_search = (\<lambda>q. Inr []),
      store_analytics = (\<lambda>u. None),
      db_commit = (\<lambda>rows. None),
      engine = sample_engine\<rparr>"

definition empty_world :: world where
  "empty_world = \<lparr>inventory = [], interactions = [], session_new = [], trace = []\<rparr>"

text \<open>The body of a /chat request with a message and a transcript.\<close>

definition chat_data :: "string \<Rightarrow> message list \<Rightarrow> request" where
  "chat_data m h =
     \<lparr>data_message = Val m, data_conversation_history = Val h, data_conversation_id = JNull\<rparr>"

text \<open>
  A pending call of \<open>fetch_cars\<close> with an empty argument object, the assistant message
  that carries it with \<open>None\<close> for content, a state that holds one inventory row, and the
  body of a request that carries a transcript only.
\<close>

definition sample_call :: tool_call where
  "sample_call =
     \<lparr>call_id = ''call_1'', call_type = ''function'', function_name = ''fetch_cars'',
      function_arguments = ''{}''\<rparr>"

definition pending_null :: message where
  "pending_null =
     \<lparr>role = Some ''assistant'', content = Null, tool_calls = Val [sample_call],
      tool_call_id = None\<rparr>"

definition sample_world :: world where
  "sample_world =
     \<lparr>inventory = [sample_car ''ABC123'' ''Kicks''], interactions = [], session_new = [],
      trace = []\<rparr>"

definition history_data :: "message list \<Rightarrow> request" where
  "history_data h =
     \<lparr>data_message = Absent, data_conversation_history = Val h, data_conversation_id = JNull\<rparr>"

text \<open>
  A summary object of the expected shape, a model that answers with the empty JSON
  object, and a database whose commit fails while the model answers with that summary.
\<close>

definition sample_summary_json :: json where
  "sample_summary_json =
     JObj [(''sentiment'', JStr ''positive''),
           (''keywords'', JArr [JStr ''test drive'']),
           (''summary'', JStr ''The customer asked for a test drive.''),
           (''department'', JStr ''Sales''),
           (''insights'',
              JObj [(''urgency'', JStr ''high''),
                    (''upsell_opportunity'', JBool False),
                    (''customer_interest'', JStr ''high''),
                    (''additional_notes'', JStr ''Call back today.'')])]"

definition empty_object_env :: env where
  "empty_object_env =
     sample_env\<lparr>chat_completion :=
       (\<lambda>req. Inr (sample_completion\<lparr>message_content := Some ''{}''\<rparr>))\<rparr>"

definition failing_db_env :: env where
  "failing_db_env =
     sample_env\<lparr>json_loads := (\<lambda>s. Inr sample_summary_json),
                db_commit := (\<lambda>rows. Some (ExternalError ''connection to the database lost''))\<rparr>"

section \<open>Facts about strings\<close>

lemma startswith_append: "startswith (p @ s) p"
  by (induction p) auto

lemma str_in_append: "str_in p (a @ p @ b)"
proof (induction a)
  case Nil
  show ?case
  proof (cases "p @ b")
    case Nil
    then show ?thesis by simp
  next
    case (Cons c cs)
    have "startswith (p @ b) p" by (rule startswith_append)
    with Cons show ?thesis by simp
  qed
next
  case (Cons c a)
  then show ?case by simp
qed

lemma any_end_phrase_closing: "any_end_phrase (lower closing_text)"
  by (simp add: any_end_phrase_def end_phrases_def closing_text_def lower_def lower_char_def)

section \<open>Facts about the detector\<close>

lemma scan_recent_True_iff:
  "scan_recent ms = Inr True \<longleftrightarrow>
     (\<exists>pre m post. ms = pre @ m # post \<and> farewell_message m \<and>
        (\<forall>x\<in>set pre. role x = Some ''assistant'' \<longrightarrow> content x \<noteq> Null))"
proof (induction ms)
  case Nil
  then show ?case by simp
next
  case (Cons a ms)
  show ?case
  proof (cases "role a = Some ''assistant''")
    case False
    then have "scan_recent (a # ms) = scan_recent ms" by simp
    moreover have "(\<exists>pre m post. a # ms = pre @ m # post \<and> farewell_message m \<and>
        (\<forall>x\<in>set pre. role x = Some ''assistant'' \<longrightarrow> content x \<noteq> Null))
      \<longleftrightarrow> (\<exists>pre m post. ms = pre @ m # post \<and> farewell_message m \<and>
        (\<forall>x\<in>set pre. role x = Some ''assistant'' \<longrightarrow> content x \<noteq> Null))"
      (is "?L \<longleftrightarrow> ?R")
    proof
      assume ?L
      then obtain pre m post where h: "a # ms = pre @ m # post" "farewell_message m"
        "\<forall>x\<in>set pre. role x = Some ''assistant'' \<longrightarrow> content x \<noteq> Null" by blast
      show ?R
      proof (cases pre)
        case Nil
        with h False show ?thesis by (simp add: farewell_message_def)
      next
        case (Cons b pre')
        with h have "ms = pre' @ m # post" "\<forall>x\<in>set pre'. role x = Some ''assistant'' \<longrightarrow> content x \<noteq> Null"
          by auto
        with h(2) show ?thesis by blast
      qed
    next
      assume ?R
      then obtain pre m post where h: "ms = pre @ m # post" "farewell_message m"
        "\<forall>x\<in>set pre. role x = Some ''assistant'' \<longrightarrow> content x \<noteq> Null" by blast
      with False have "a # ms = (a # pre) @ m # post"
        "\<forall>x\<in>set (a # pre). role x = Some ''assistant'' \<longrightarrow> content x \<noteq> Null" by auto
      with h(2) show ?L by blast
    qed
    ultimately show ?thesis using Cons.IH by simp
  next
    case True
    show ?thesis
    proof (cases "farewell_message a")
      case f: True
      then have "scan_recent (a # ms) = Inr True"
        using True by (auto simp: farewell_message_def split: option.splits)
      moreover have "a # ms = [] @ a # ms" by simp
      ultimately show ?thesis using f by (metis empty_iff list.set(1))
    next
      case nf: False
      show ?thesis
      proof (cases "content a = Null")
        case n: True
        then have l: "scan_recent (a # ms) \<noteq> Inr True" using True by simp
        have "\<not> (\<exists>pre m post. a # ms = pre @ m # post \<and> farewell_message m \<and>
           (\<forall>x\<in>set pre. role x = Some ''assistant'' \<longrightarrow> content x \<noteq> Null))"
        proof
          assume "\<exists>pre m post. a # ms = pre @ m # post \<and> farewell_message m \<and>
           (\<forall>x\<in>set pre. role x = Some ''assistant'' \<longrightarrow> content x \<noteq> Null)"
          then obtain pre m post where h: "a # ms = pre @ m # post" "farewell_message m"
            "\<forall>x\<in>set pre. role x = Some ''assistant'' \<longrightarrow> content x \<noteq> Null" by blast
          show False
          proof (cases pre)
            case Nil
            with h nf show ?thesis by simp
          next
            case (Cons b pre')
            with h True n show ?thesis by auto
          qed
        qed
        with l show ?thesis by simp
      next
        case nn: False
        then have s: "scan_recent (a # ms) = scan_recent ms"
          using True nf by (cases "content a") (auto simp: farewell_message_def)
        have "(\<exists>pre m post. a # ms = pre @ m # post \<and> farewell_message m \<and>
            (\<forall>x\<in>set pre. role x = Some ''assistant'' \<longrightarrow> content x \<noteq> Null))
          \<longleftrightarrow> (\<exists>pre m post. ms = pre @ m # post \<and> farewell_message m \<and>
            (\<forall>x\<in>set pre. role x = Some ''assistant'' \<longrightarrow> content x \<noteq> Null))"
          (is "?L \<longleftrightarrow> ?R")
        proof
          assume ?L
          then obtain pre m post where h: "a # ms = pre @ m # post" "farewell_message m"
            "\<forall>x\<in>set pre. role x = Some ''assistant'' \<longrightarrow> content x \<noteq> Null" by blast
          show ?R
          proof (cases pre)
            case Nil
            with h nf show ?thesis by simp
          next
            case (Cons b pre')
            with h have "ms = pre' @ m # post"
              "\<forall>x\<in>set pre'. role x = Some ''assistant'' \<longrightarrow> content x \<noteq> Null"
              by auto
            with h(2) show ?thesis by blast
          qed
        next
          assume ?R
          then obtain pre m post where h: "ms = pre @ m # post" "farewell_message m"
            "\<forall>x\<in>set pre. role x = Some ''assistant'' \<longrightarrow> content x \<noteq> Null" by blast
          with nn have "a # ms = (a # pre) @ m # post"
            "\<forall>x\<in>set (a # pre). role x = Some ''assistant'' \<longrightarrow> content x \<noteq> Null" by auto
          with h(2) show ?L by blast
        qed
        with s show ?thesis using Cons.IH by simp
      qed
    qed
  qed
qed

section \<open>The end-of-conversation detector: claims C5 and C9\<close>

lemma detect_True_iff:
  "detect_end_of_conversation h = Inr True \<longleftrightarrow>
     3 \<le> length h \<and>
     (\<exists>older m newer. drop (length h - 5) h = older @ m # newer \<and> farewell_message m \<and>
        (\<forall>x\<in>set newer. role x = Some ''assistant'' \<longrightarrow> content x \<noteq> Null))"
proof (cases "length h < 3")
  case True
  then show ?thesis by (simp add: detect_end_of_conversation_def)
next
  case False
  let ?r = "drop (length h - 5) h"
  have "(\<exists>pre m post. rev ?r = pre @ m # post \<and> farewell_message m \<and>
        (\<forall>x\<in>set pre. role x = Some ''assistant'' \<longrightarrow> content x \<noteq> Null))
     \<longleftrightarrow> (\<exists>older m newer. ?r = older @ m # newer \<and> farewell_message m \<and>
        (\<forall>x\<in>set newer. role x = Some ''assistant'' \<longrightarrow> content x \<noteq> Null))"
    (is "?L \<longleftrightarrow> ?R")
  proof
    assume ?L
    then obtain pre m post where h: "rev ?r = pre @ m # post" "farewell_message m"
      "\<forall>x\<in>set pre. role x = Some ''assistant'' \<longrightarrow> content x \<noteq> Null" by blast
    from h(1) have "?r = rev post @ m # rev pre" by (simp add: rev_swap)
    moreover from h(3) have "\<forall>x\<in>set (rev pre). role x = Some ''assistant'' \<longrightarrow> content x \<noteq> Null"
      by simp
    ultimately show ?R using h(2) by blast
  next
    assume ?R
    then obtain older m newer where h: "?r = older @ m # newer" "farewell_message m"
      "\<forall>x\<in>set newer. role x = Some ''assistant'' \<longrightarrow> content x \<noteq> Null" by blast
    from h(1) have "rev ?r = rev newer @ m # rev older" by simp
    moreover from h(3) have "\<forall>x\<in>set (rev newer). role x = Some ''assistant'' \<longrightarrow> content x \<noteq> Null"
      by simp
    ultimately show ?L using h(2) by blast
  qed
  with False show ?thesis
    by (simp add: detect_end_of_conversation_def scan_recent_True_iff)
qed

lemma farewell_closing:
  "role m = Some ''assistant'' \<Longrightarrow> content m = Val closing_text \<Longrightarrow> farewell_message m"
  by (simp add: farewell_message_def any_end_phrase_closing)

text \<open>
  Claim C5, amended. The detector answers \<open>True\<close> for every transcript of at least three
  messages whose last assistant message is among the last five messages and is exactly
  the closing text. It answers \<open>True\<close> exactly when the transcript has at least three
  messages and one of its last five messages is an assistant message whose lower-cased
  content contains one of the phrases, no assistant message after it having \<open>None\<close> for
  content (the scan goes from the most recent message backwards and reads the content of
  assistant messages only).
\<close>

theorem detect_end_of_conversation_closing:
  "(3 \<le> length h \<and> h = older @ m # newer \<and> length newer < 5 \<and>
    role m = Some ''assistant'' \<and> content m = Val closing_text \<and>
    (\<forall>x\<in>set newer. role x \<noteq> Some ''assistant'')
      \<longrightarrow> detect_end_of_conversation h = Inr True)
   \<and> (detect_end_of_conversation h = Inr True \<longleftrightarrow>
        3 \<le> length h \<and>
        (\<exists>older m newer. drop (length h - 5) h = older @ m # newer \<and> farewell_message m \<and>
           (\<forall>x\<in>set newer. role x = Some ''assistant'' \<longrightarrow> content x \<noteq> Null)))"
proof (intro conjI impI)
  assume a: "3 \<le> length h \<and> h = older @ m # newer \<and> length newer < 5 \<and>
    role m = Some ''assistant'' \<and> content m = Val closing_text \<and>
    (\<forall>x\<in>set newer. role x \<noteq> Some ''assistant'')"
  then have "length h - 5 \<le> length older" by auto
  with a have "drop (length h - 5) h = drop (length h - 5) older @ m # newer" by simp
  moreover from a have "farewell_message m" by (simp add: farewell_closing)
  moreover from a have "\<forall>x\<in>set newer. role x = Some ''assistant'' \<longrightarrow> content x \<noteq> Null" by simp
  ultimately show "detect_end_of_conversation h = Inr True"
    using a unfolding detect_True_iff by blast
next
  show "detect_end_of_conversation h = Inr True \<longleftrightarrow>
        3 \<le> length h \<and>
        (\<exists>older m newer. drop (length h - 5) h = older @ m # newer \<and> farewell_message m \<and>
           (\<forall>x\<in>set newer. role x = Some ''assistant'' \<longrightarrow> content x \<noteq> Null))"
    by (rule detect_True_iff)
qed

text \<open>The amended claim C5 at a transcript of five messages.\<close>

theorem detect_end_of_conversation_closing_witness:
  "detect_end_of_conversation
     [user_msg ''Hello'', assistant_msg ''Hi, how can I help?'', user_msg ''Nothing, thanks'',
      assistant_msg closing_text, user_msg ''ok''] = Inr True"
  using detect_end_of_conversation_closing
    [of "[user_msg ''Hello'', assistant_msg ''Hi, how can I help?'', user_msg ''Nothing, thanks'',
      assistant_msg closing_text, user_msg ''ok'']"
      "[user_msg ''Hello'', assistant_msg ''Hi, how can I help?'', user_msg ''Nothing, thanks'']"
      "assistant_msg closing_text" "[user_msg ''ok'']", THEN conjunct1]
  by (simp add: user_msg_def assistant_msg_def)

text \<open>
  Claim C5 as stated fails on a transcript of two messages: its last assistant message is
  exactly the closing text, and the detector answers \<open>False\<close>. It fails as well when the
  last assistant message, the closing text again, is followed by five user messages.
\<close>

theorem detect_end_of_conversation_short_counterexample:
  "role (last [user_msg ''Bye'', assistant_msg closing_text]) = Some ''assistant'' \<and>
   content (last [user_msg ''Bye'', assistant_msg closing_text]) = Val closing_text \<and>
   detect_end_of_conversation [user_msg ''Bye'', assistant_msg closing_text] = Inr False \<and>
   detect_end_of_conversation
     [assistant_msg closing_text, user_msg ''Bye'', user_msg ''Are you there?'',
      user_msg ''Hello?'', user_msg ''Anyone?'', user_msg ''Ok, bye''] = Inr False"
  by (simp add: detect_end_of_conversation_def user_msg_def assistant_msg_def)

text \<open>
  Claim C9. On every transcript of at least three messages whose last message is an
  assistant message with content \<open>None\<close>, the detector raises (an attribute error, from
  lower-casing \<open>None\<close>) instead of returning a boolean.
\<close>

theorem detect_end_of_conversation_null_content:
  assumes "3 \<le> length h" and "role (last h) = Some ''assistant''" and "content (last h) = Null"
  shows "detect_end_of_conversation h =
           Inl (AttributeError ''NoneType object has no attribute lower'')"
proof -
  from assms(1) have "h \<noteq> []" by auto
  then obtain b x where hb: "h = b @ [x]" by (meson rev_exhaust)
  then have x: "role x = Some ''assistant''" "content x = Null" using assms by auto
  define k where "k = length h - 5"
  have "k \<le> length b" using hb by (simp add: k_def)
  then have "drop k (b @ [x]) = drop k b @ [x]" by simp
  then have "rev (drop k (b @ [x])) = x # rev (drop k b)" by simp
  then have "scan_recent (rev (drop k (b @ [x]))) =
      Inl (AttributeError ''NoneType object has no attribute lower'')"
    using x by simp
  moreover have "\<not> length h < 3" using assms(1) by simp
  ultimately show ?thesis
    unfolding detect_end_of_conversation_def k_def hb by simp
qed

text \<open>Claim C9 at a transcript of three messages.\<close>

theorem detect_end_of_conversation_null_content_witness:
  "detect_end_of_conversation
     [user_msg ''Hello'', user_msg ''Anyone?'',
      \<lparr>role = Some ''assistant'', content = Null, tool_calls = Absent, tool_call_id = None\<rparr>]
   = Inl (AttributeError ''NoneType object has no attribute lower'')"
  using detect_end_of_conversation_null_content
    [of "[user_msg ''Hello'', user_msg ''Anyone?'',
      \<lparr>role = Some ''assistant'', content = Null, tool_calls = Absent, tool_call_id = None\<rparr>]"]
  by simp

section \<open>Inventory lookup: claims C6 and C7\<close>

text \<open>
  Claim C6. For every filter whose numeric fields all equal \<open>-1\<close> and whose string
  fields are all empty, \<open>fetch_cars\<close> returns the full listing: one dictionary for every
  row of the table, in which \<open>price\<close> is a float and \<open>created_at\<close> is the ISO format
  of the time stamp (or \<open>None\<close> when the row has none).
\<close>

theorem fetch_cars_unfiltered:
  assumes "arg_year f = Some (- 1)" and "arg_max_year f = Some (- 1)"
    and "arg_price f = Some (- 1)" and "arg_max_price f = Some (- 1)"
    and "arg_mileage f = Some (- 1)"
    and "arg_make f = Some []" and "arg_model f = Some []" and "arg_color f = Some []"
    and "arg_stock_number f = Some []" and "arg_vin f = Some []"
  shows "fetch_cars db table f = map (to_dict db) table \<and>
         (\<forall>car\<in>set table.
            get_item (to_dict db car) ''price'' = Inr (JFloat (price car)) \<and>
            get_item (to_dict db car) ''created_at'' =
              Inr (case created_at car of None \<Rightarrow> JNull | Some t \<Rightarrow> JStr (isoformat db t)))"
proof -
  have "row_matches db f car" for car
    using assms by (simp add: row_matches_def string_filter_def numeric_filter_def)
  then have "filter (row_matches db f) table = table" by simp
  then show ?thesis by (simp add: fetch_cars_def to_dict_def)
qed

text \<open>Claim C6 at a table of two rows.\<close>

theorem fetch_cars_unfiltered_witness:
  "fetch_cars sample_engine [sample_car ''ABC123'' ''Kicks'', sample_car ''ABC1234'' ''Rogue'']
     sentinel_args
   = [to_dict sample_engine (sample_car ''ABC123'' ''Kicks''),
      to_dict sample_engine (sample_car ''ABC1234'' ''Rogue'')]
   \<and> get_item (to_dict sample_engine (sample_car ''ABC123'' ''Kicks'')) ''price''
       = Inr (JFloat 25999)
   \<and> get_item (to_dict sample_engine (sample_car ''ABC123'' ''Kicks'')) ''created_at''
       = Inr (JStr ''2025-03-01T09:30:00'')"
  using fetch_cars_unfiltered
    [of sentinel_args sample_engine "[sample_car ''ABC123'' ''Kicks'', sample_car ''ABC1234'' ''Rogue'']"]
  by (simp add: sentinel_args_def no_args_def sample_car_def sample_engine_def)

lemma row_matches_stock_number:
  assumes "arg_stock_number f = Some s" and "s \<noteq> []"
  shows "row_matches db f car \<longleftrightarrow>
           stock_number car = s \<and> row_matches db (f\<lparr>arg_stock_number := None\<rparr>) car"
  using assms by (auto simp: row_matches_def string_filter_def)

lemma row_matches_vin:
  assumes "arg_vin f = Some v" and "v \<noteq> []"
  shows "row_matches db f car \<longleftrightarrow>
           vin car = v \<and> row_matches db (f\<lparr>arg_vin := None\<rparr>) car"
  using assms by (auto simp: row_matches_def string_filter_def)

text \<open>
  Claim C7. A non-empty \<open>stock_number\<close> (or \<open>vin\<close>) of the filter is matched by equality,
  in both directions: a row matches the filter exactly when its stock number (its VIN)
  equals the filter's and the row passes the other filters, so the result is the
  dictionaries of exactly those rows, each carrying that stock number (that VIN), and the
  rows with another one contribute nothing. So the filter \<open>ABC123\<close> matches no row
  whose stock number is \<open>ABC1234\<close>.
\<close>

theorem fetch_cars_exact_match:
  "(arg_stock_number f = Some s \<and> s \<noteq> [] \<longrightarrow>
      (\<forall>car. row_matches db f car \<longleftrightarrow>
         stock_number car = s \<and> row_matches db (f\<lparr>arg_stock_number := None\<rparr>) car) \<and>
      fetch_cars db table f =
        map (to_dict db)
          (filter (\<lambda>car. stock_number car = s \<and>
                         row_matches db (f\<lparr>arg_stock_number := None\<rparr>) car) table) \<and>
      fetch_cars db table f = fetch_cars db (filter (\<lambda>car. stock_number car = s) table) f \<and>
      (\<forall>d\<in>set (fetch_cars db table f). get_item d ''stock_number'' = Inr (JStr s)))
   \<and> (arg_vin f = Some v \<and> v \<noteq> [] \<longrightarrow>
      (\<forall>car. row_matches db f car \<longleftrightarrow>
         vin car = v \<and> row_matches db (f\<lparr>arg_vin := None\<rparr>) car) \<and>
      fetch_cars db table f =
        map (to_dict db)
          (filter (\<lambda>car. vin car = v \<and> row_matches db (f\<lparr>arg_vin := None\<rparr>) car) table) \<and>
      fetch_cars db table f = fetch_cars db (filter (\<lambda>car. vin car = v) table) f \<and>
      (\<forall>d\<in>set (fetch_cars db table f). get_item d ''vin'' = Inr (JStr v)))
   \<and> (arg_stock_number f = Some ''ABC123'' \<and> stock_number car = ''ABC1234'' \<longrightarrow>
      \<not> row_matches db f car \<and> to_dict db car \<notin> set (fetch_cars db table f))"
proof (intro conjI impI)
  assume a: "arg_stock_number f = Some s \<and> s \<noteq> []"
  then show m: "\<forall>car. row_matches db f car \<longleftrightarrow>
         stock_number car = s \<and> row_matches db (f\<lparr>arg_stock_number := None\<rparr>) car"
    by (simp add: row_matches_stock_number)
  then have "row_matches db f = (\<lambda>car. stock_number car = s \<and>
                         row_matches db (f\<lparr>arg_stock_number := None\<rparr>) car)"
    by (intro ext) simp
  then show "fetch_cars db table f =
        map (to_dict db)
          (filter (\<lambda>car. stock_number car = s \<and>
                         row_matches db (f\<lparr>arg_stock_number := None\<rparr>) car) table)"
    by (simp add: fetch_cars_def)
  from m have e: "\<forall>car. row_matches db f car \<longrightarrow> stock_number car = s" by simp
  then have "filter (row_matches db f) (filter (\<lambda>car. stock_number car = s) table)
      = filter (row_matches db f) table"
    by (induction table) auto
  then show "fetch_cars db table f = fetch_cars db (filter (\<lambda>car. stock_number car = s) table) f"
    by (simp add: fetch_cars_def)
  show "\<forall>d\<in>set (fetch_cars db table f). get_item d ''stock_number'' = Inr (JStr s)"
    using e by (auto simp: fetch_cars_def to_dict_def)
next
  assume a: "arg_vin f = Some v \<and> v \<noteq> []"
  then show m: "\<forall>car. row_matches db f car \<longleftrightarrow>
         vin car = v \<and> row_matches db (f\<lparr>arg_vin := None\<rparr>) car"
    by (simp add: row_matches_vin)
  then have "row_matches db f = (\<lambda>car. vin car = v \<and>
                         row_matches db (f\<lparr>arg_vin := None\<rparr>) car)"
    by (intro ext) simp
  then show "fetch_cars db table f =
        map (to_dict db)
          (filter (\<lambda>car. vin car = v \<and> row_matches db (f\<lparr>arg_vin := None\<rparr>) car) table)"
    by (simp add: fetch_cars_def)
  from m have e: "\<forall>car. row_matches db f car \<longrightarrow> vin car = v" by simp
  then have "filter (row_matches db f) (filter (\<lambda>car. vin car = v) table)
      = filter (row_matches db f) table"
    by (induction table) auto
  then show "fetch_cars db table f = fetch_cars db (filter (\<lambda>car. vin car = v) table) f"
    by (simp add: fetch_cars_def)
  show "\<forall>d\<in>set (fetch_cars db table f). get_item d ''vin'' = Inr (JStr v)"
    using e by (auto simp: fetch_cars_def to_dict_def)
next
  assume a: "arg_stock_number f = Some ''ABC123'' \<and> stock_number car = ''ABC1234''"
  then show n: "\<not> row_matches db f car"
    by (simp add: row_matches_def string_filter_def)
  from a have "\<forall>c. row_matches db f c \<longrightarrow> stock_number c = ''ABC123''"
    by (simp add: row_matches_def string_filter_def)
  then have "\<forall>d\<in>set (fetch_cars db table f). get_item d ''stock_number'' = Inr (JStr ''ABC123'')"
    by (auto simp: fetch_cars_def to_dict_def)
  moreover have "get_item (to_dict db car) ''stock_number'' = Inr (JStr ''ABC1234'')"
    using a by (simp add: to_dict_def)
  ultimately show "to_dict db car \<notin> set (fetch_cars db table f)" by auto
qed

text \<open>
  Claim C7 at a table that holds both stock numbers: the row \<open>ABC123\<close> is matched and
  returned, the row \<open>ABC1234\<close> is not.
\<close>

theorem fetch_cars_exact_match_witness:
  "fetch_cars sample_engine [sample_car ''ABC123'' ''Kicks'', sample_car ''ABC1234'' ''Rogue'']
     (sentinel_args\<lparr>arg_stock_number := Some ''ABC123''\<rparr>)
     = [to_dict sample_engine (sample_car ''ABC123'' ''Kicks'')]
   \<and> row_matches sample_engine (sentinel_args\<lparr>arg_stock_number := Some ''ABC123''\<rparr>)
         (sample_car ''ABC123'' ''Kicks'')
   \<and> \<not> row_matches sample_engine (sentinel_args\<lparr>arg_stock_number := Some ''ABC123''\<rparr>)
         (sample_car ''ABC1234'' ''Rogue'')
   \<and> to_dict sample_engine (sample_car ''ABC1234'' ''Rogue'') \<notin>
       set (fetch_cars sample_engine
              [sample_car ''ABC123'' ''Kicks'', sample_car ''ABC1234'' ''Rogue'']
              (sentinel_args\<lparr>arg_stock_number := Some ''ABC123''\<rparr>))"
proof -
  let ?f = "sentinel_args\<lparr>arg_stock_number := Some ''ABC123''\<rparr>"
  let ?table = "[sample_car ''ABC123'' ''Kicks'', sample_car ''ABC1234'' ''Rogue'']"
  have a: "arg_stock_number ?f = Some ''ABC123'' \<and> ''ABC123'' \<noteq> []" by simp
  have b: "stock_number (sample_car ''ABC1234'' ''Rogue'') = ''ABC1234''"
    by (simp add: sample_car_def)
  have o: "row_matches sample_engine (?f\<lparr>arg_stock_number := None\<rparr>) car" for car
    by (simp add: row_matches_def string_filter_def numeric_filter_def sentinel_args_def
        no_args_def)
  note t = fetch_cars_exact_match
      [of ?f "''ABC123''" sample_engine ?table "[]" "sample_car ''ABC1234'' ''Rogue''"]
  from t a have m: "\<forall>car. row_matches sample_engine ?f car \<longleftrightarrow>
      stock_number car = ''ABC123'' \<and> row_matches sample_engine (?f\<lparr>arg_stock_number := None\<rparr>) car"
    by blast
  from t a have r: "fetch_cars sample_engine ?table ?f =
      map (to_dict sample_engine)
        (filter (\<lambda>car. stock_number car = ''ABC123'' \<and>
           row_matches sample_engine (?f\<lparr>arg_stock_number := None\<rparr>) car) ?table)"
    by blast
  have 1: "fetch_cars sample_engine ?table ?f = [to_dict sample_engine (sample_car ''ABC123'' ''Kicks'')]"
    unfolding r using o by (simp add: sample_car_def)
  have 2: "row_matches sample_engine ?f (sample_car ''ABC123'' ''Kicks'')"
    using m o by (simp add: sample_car_def)
  from t a b have 3: "\<not> row_matches sample_engine ?f (sample_car ''ABC1234'' ''Rogue'') \<and>
      to_dict sample_engine (sample_car ''ABC1234'' ''Rogue'') \<notin> set (fetch_cars sample_engine ?table ?f)"
    by blast
  from 1 2 3 show ?thesis by blast
qed

section \<open>System-context insertion: claim C4\<close>

lemma system_message_content_split:
  "system_message_content =
     '' \<newline>                '' @ ''You are Patricia'' @ drop 34 system_message_content"
  unfolding system_message_content_def by simp

lemma persona_marker_in_system_message:
  "str_in ''You are Patricia'' system_message_content"
  by (subst system_message_content_split) (rule str_in_append)

lemma has_marker_system_message:
  "has_marker ''You are Patricia'' (system_message # rest) = Inr True"
  by (simp add: system_message_def persona_marker_in_system_message)

lemma has_marker_time_context_message:
  "has_marker ''Current time:'' [time_context_message ev] = Inr True"
proof -
  have "str_in ''Current time:'' ([] @ ''Current time:'' @ ('' '' @ current_time_formatted ev))"
    by (rule str_in_append)
  then have "str_in ''Current time:'' (''Current time: '' @ current_time_formatted ev)"
    by simp
  then show ?thesis by (simp add: time_context_message_def)
qed

lemma has_marker_append_True:
  "has_marker m xs = Inr True \<Longrightarrow> has_marker m (xs @ ys) = Inr True"
  by (induction xs) (auto split: if_splits option.splits)

lemma has_marker_append_False:
  "has_marker m xs = Inr False \<Longrightarrow> has_marker m (xs @ ys) = has_marker m ys"
  by (induction xs) (auto split: if_splits option.splits)

lemma has_marker_True_nonempty: "has_marker m xs = Inr True \<Longrightarrow> xs \<noteq> []"
  by auto

lemma ensure_system_context_present:
  assumes "has_marker ''You are Patricia'' h = Inr True"
    and "has_marker ''Current time:'' h = Inr True"
  shows "ensure_system_context ev h = Inr h"
  using assms has_marker_True_nonempty [OF assms(1)]
  by (simp add: ensure_system_context_def)

text \<open>
  Claim C4. The system-context insertion step is idempotent: applied to its own result,
  at any later reading of the clock, it returns that result unchanged, so a second
  application adds neither a second persona message nor a second time-context message.
  Once a system message with the persona marker and a system message with the
  time-context marker are both present, the step inserts nothing.
\<close>

theorem ensure_system_context_idempotent:
  "(ensure_system_context ev h = Inr h' \<longrightarrow> ensure_system_context ev' h' = Inr h')
   \<and> (has_marker ''You are Patricia'' h = Inr True \<and> has_marker ''Current time:'' h = Inr True
        \<longrightarrow> ensure_system_context ev h = Inr h)"
proof (intro conjI impI)
  assume a: "ensure_system_context ev h = Inr h'"
  then obtain b where b: "has_marker ''You are Patricia'' h = Inr b"
    by (cases "has_marker ''You are Patricia'' h") (auto simp: ensure_system_context_def)
  define h1 where "h1 = (if h = [] \<or> \<not> b then system_message # h else h)"
  have p1: "has_marker ''You are Patricia'' h1 = Inr True"
  proof (cases "h = [] \<or> \<not> b")
    case True
    then have "h1 = system_message # h" by (simp add: h1_def)
    then show ?thesis by (simp only: has_marker_system_message)
  next
    case False
    then have "h1 = h" and "b" by (simp_all add: h1_def)
    with b show ?thesis by simp
  qed
  from a b obtain t where t: "has_marker ''Current time:'' h1 = Inr t"
    by (cases "has_marker ''Current time:'' h1") (auto simp: ensure_system_context_def h1_def Let_def)
  from a b t have h': "h' = (if \<not> t then h1 @ [time_context_message ev] else h1)"
    by (auto simp: ensure_system_context_def h1_def Let_def)
  have "has_marker ''You are Patricia'' h' = Inr True"
    using p1 by (simp add: h' has_marker_append_True)
  moreover have "has_marker ''Current time:'' h' = Inr True"
  proof (cases t)
    case True
    with t show ?thesis by (simp add: h')
  next
    case False
    with t have "has_marker ''Current time:'' (h1 @ [time_context_message ev])
        = has_marker ''Current time:'' [time_context_message ev]"
      by (simp only: has_marker_append_False)
    with False show ?thesis by (simp only: h' has_marker_time_context_message not_False_eq_True if_True)
  qed
  ultimately show "ensure_system_context ev' h' = Inr h'"
    by (rule ensure_system_context_present)
next
  assume "has_marker ''You are Patricia'' h = Inr True \<and> has_marker ''Current time:'' h = Inr True"
  then show "ensure_system_context ev h = Inr h"
    by (simp add: ensure_system_context_present)
qed

text \<open>
  Claim C4 at a transcript that holds one user message: the first application puts the
  persona message first, the second one, a minute later, changes nothing.
\<close>

theorem ensure_system_context_idempotent_witness:
  "\<exists>h'. ensure_system_context sample_env [user_msg ''Hello''] = Inr h' \<and>
         hd h' = system_message \<and>
         ensure_system_context
           (sample_env\<lparr>current_time_formatted := ''2025-03-01 09:31:00 EST''\<rparr>) h' = Inr h'"
proof -
  have u: "has_marker ''You are Patricia'' [user_msg ''Hello''] = Inr False"
    by (simp add: user_msg_def)
  have v: "has_marker ''Current time:'' [user_msg ''Hello''] = Inr False"
    by (simp add: user_msg_def)
  have "\<exists>t. has_marker ''Current time:'' [system_message, user_msg ''Hello''] = Inr t"
    by (auto simp: system_message_def user_msg_def)
  then obtain t where t: "has_marker ''Current time:'' [system_message, user_msg ''Hello''] = Inr t" ..
  define h' where "h' = (if \<not> t then [system_message, user_msg ''Hello''] @ [time_context_message sample_env]
     else [system_message, user_msg ''Hello''])"
  have e: "ensure_system_context sample_env [user_msg ''Hello''] = Inr h'"
    using u t by (simp add: ensure_system_context_def h'_def)
  have "hd h' = system_message" by (simp add: h'_def)
  with e ensure_system_context_idempotent
         [of sample_env "[user_msg ''Hello'']" h'
             "sample_env\<lparr>current_time_formatted := ''2025-03-01 09:31:00 EST''\<rparr>"]
  show ?thesis by blast
qed

section \<open>The message field of /chat: claim C10\<close>

text \<open>
  Claim C10, amended. The \<open>message\<close> field of a /chat request is never appended to the
  conversation: two requests that differ only in \<open>message\<close>, both messages non-empty
  after stripping white space, get the same answer and leave the same state, so the
  transcript submitted to the model and the transcript returned are the same. A message
  that is missing, empty or white space only is answered with 400, nothing being called.
\<close>

theorem chat_message_only_checked:
  "(strip m1 \<noteq> [] \<and> strip m2 \<noteq> [] \<longrightarrow>
      chat ev w (Some (d\<lparr>data_message := Val m1\<rparr>)) = chat ev w (Some (d\<lparr>data_message := Val m2\<rparr>)))
   \<and> (strip m = [] \<longrightarrow>
      status (fst (chat ev w (Some (d\<lparr>data_message := Val m\<rparr>)))) = 400 \<and>
      snd (chat ev w (Some (d\<lparr>data_message := Val m\<rparr>))) = w)
   \<and> status (fst (chat ev w (Some (d\<lparr>data_message := Absent\<rparr>)))) = 400
   \<and> snd (chat ev w (Some (d\<lparr>data_message := Absent\<rparr>))) = w"
  by (simp add: chat_def Let_def error_response_def strip_def)

text \<open>The amended claim C10 at two first requests of a conversation.\<close>

theorem chat_message_only_checked_witness:
  "chat sample_env empty_world (Some (chat_data ''Hi'' []))
     = chat sample_env empty_world (Some (chat_data ''What do you have in stock?'' []))"
proof -
  have a: "strip ''Hi'' \<noteq> []" by (simp add: strip_def is_space_def)
  have b: "strip ''What do you have in stock?'' \<noteq> []" by (simp add: strip_def is_space_def)
  show ?thesis
    using a b chat_message_only_checked
      [of "''Hi''" "''What do you have in stock?''" sample_env empty_world "chat_data [] []"]
    by (simp add: chat_data_def)
qed

lemma sample_reply_no_phrase:
  "\<not> any_end_phrase (lower ''We have two Nissan models in stock.'')"
  by (simp add: any_end_phrase_def end_phrases_def lower_def lower_char_def)

lemma chat_hi_status:
  "status (fst (chat sample_env empty_world (Some (chat_data ''Hi'' [])))) = 200"
proof -
  have s: "strip ''Hi'' = ''Hi''" by (simp add: strip_def is_space_def)
  have t: "has_marker ''Current time:'' [time_context_message sample_env] = Inr True"
    by (rule has_marker_time_context_message)
  show ?thesis
  proof (cases "str_in ''Current time:'' system_message_content")
    case True
    then have e: "ensure_system_context sample_env [] = Inr [system_message]"
      by (simp add: ensure_system_context_def system_message_def)
    have c: "chat_completion sample_env r = Inr sample_completion" for r
      by (simp add: sample_env_def)
    show ?thesis
      by (simp add: chat_def chat_data_def s e c chat_reply_def sample_completion_def
          summary_if_ended_def detect_end_of_conversation_def Let_def)
  next
    case False
    then have e: "ensure_system_context sample_env [] =
        Inr [system_message, time_context_message sample_env]"
      by (simp add: ensure_system_context_def system_message_def)
    have d: "detect_end_of_conversation
        [system_message, time_context_message sample_env,
         assistant_message ''We have two Nissan models in stock.'' []] = Inr False"
      using sample_reply_no_phrase
      by (simp add: detect_end_of_conversation_def system_message_def time_context_message_def
          assistant_message_def)
    have c: "chat_completion sample_env r = Inr sample_completion" for r
      by (simp add: sample_env_def)
    show ?thesis
      by (simp add: chat_def chat_data_def s e c chat_reply_def sample_completion_def
          summary_if_ended_def d Let_def)
  qed
qed

text \<open>
  Claim C10 as stated fails: the messages \<open>Hi\<close> and a single blank are both non-empty,
  the transcripts are the same, and the first request is answered with 200, the second
  with 400.
\<close>

theorem chat_blank_message_counterexample:
  "''Hi'' \<noteq> [] \<and> '' '' \<noteq> [] \<and>
   status (fst (chat sample_env empty_world (Some (chat_data ''Hi'' [])))) = 200 \<and>
   status (fst (chat sample_env empty_world (Some (chat_data '' '' [])))) = 400"
proof -
  have "strip '' '' = []" by (simp add: strip_def is_space_def)
  then have "status (fst (chat sample_env empty_world (Some (chat_data '' '' [])))) = 400"
    by (simp add: chat_def chat_data_def error_response_def)
  with chat_hi_status show ?thesis by simp
qed

section \<open>The tool-result round trip: claims C1 and C2\<close>

lemma inventory_emit [simp]: "inventory (emit e w) = inventory w"
  by (simp add: emit_def)

lemma process_tool_calls_dispatchable:
  "\<forall>c\<in>set calls. dispatchable ev c \<Longrightarrow>
   process_tool_calls ev w h calls =
     (Inr (h @ map (tool_response_message ev (inventory w)) calls),
      w\<lparr>trace := trace w @ map (tool_event ev) calls\<rparr>)"
proof (induction calls arbitrary: w h)
  case Nil
  then show ?case by simp
next
  case (Cons c calls)
  from Cons.prems have d: "dispatchable ev c" and r: "\<forall>c\<in>set calls. dispatchable ev c"
    by simp_all
  from d obtain a where a: "loads_args ev (function_arguments c) = Inr a"
    by (auto simp: dispatchable_def split: sum.splits)
  show ?case
  proof (cases "function_name c = ''fetch_cars''")
    case True
    then show ?thesis
      using a Cons.IH [OF r]
      by (simp add: tool_response_message_def tool_message_def tool_result_def parsed_args_def
          tool_event_def emit_def)
  next
    case False
    with d have v: "function_name c = ''find_car_review_videos''"
      by (simp add: dispatchable_def)
    then show ?thesis
      using a False Cons.IH [OF r]
      by (simp add: tool_response_message_def tool_message_def tool_result_def parsed_args_def
          tool_event_def emit_def)
  qed
qed

lemma find_tool_call_message_None:
  "(\<forall>m\<in>set h. \<not> (role m = Some ''assistant'' \<and> truthy_calls (tool_calls m))) \<Longrightarrow>
   find_tool_call_message h = None"
  by (simp add: find_tool_call_message_def find_None_iff)

lemma find_tool_call_message_Some:
  "find_tool_call_message h = Some tm \<Longrightarrow> truthy_calls (tool_calls tm) \<and> tm \<in> set h"
proof -
  assume "find_tool_call_message h = Some tm"
  then obtain i where i: "i < length (rev h)"
      "role (rev h ! i) = Some ''assistant'' \<and> truthy_calls (tool_calls (rev h ! i))"
      "tm = rev h ! i"
    unfolding find_tool_call_message_def find_Some_iff by blast
  from i(1) have "rev h ! i \<in> set (rev h)" by (rule nth_mem)
  with i show ?thesis by simp
qed

lemma save_summary_to_db_trace:
  "\<exists>rest. trace (snd (save_summary_to_db ev w s)) = trace w @ rest \<and>
          list_all (summary_event h) rest"
  by (auto simp: save_summary_to_db_def rollback_def emit_def Let_def
      split: sum.splits option.splits)

lemma summary_try_trace:
  "\<exists>rest. trace (snd (summary_try ev w h cid)) = trace w @ rest \<and>
          list_all (summary_event h) rest"
proof -
  have e: "\<exists>rest. trace (snd (save_summary_to_db ev (emit (AnalyticsCall u) (emit (ModelCall (summary_request h)) w)) s))
             = trace w @ rest \<and> list_all (summary_event h) rest" for u s
  proof -
    let ?w2 = "emit (AnalyticsCall u) (emit (ModelCall (summary_request h)) w)"
    obtain rest where r: "trace (snd (save_summary_to_db ev ?w2 s)) = trace ?w2 @ rest"
        "list_all (summary_event h) rest"
      using save_summary_to_db_trace [of ev ?w2 s h] by blast
    have "trace ?w2 = trace w @ [ModelCall (summary_request h), AnalyticsCall u]"
      by (simp add: emit_def)
    with r have "trace (snd (save_summary_to_db ev ?w2 s))
        = trace w @ ([ModelCall (summary_request h), AnalyticsCall u] @ rest)"
      "list_all (summary_event h) ([ModelCall (summary_request h), AnalyticsCall u] @ rest)"
      by simp_all
    then show ?thesis by blast
  qed
  have m: "\<exists>rest. trace (emit (ModelCall (summary_request h)) w) = trace w @ rest \<and>
      list_all (summary_event h) rest"
    by (simp add: emit_def)
  have a: "\<exists>rest. trace (emit (AnalyticsCall u) (emit (ModelCall (summary_request h)) w))
      = trace w @ rest \<and> list_all (summary_event h) rest" for u
    by (simp add: emit_def)
  show ?thesis
    unfolding summary_try_def Let_def
    using e m a by (simp split: sum.splits option.splits)
qed

lemma generate_conversation_summary_trace:
  "\<exists>rest. trace (snd (generate_conversation_summary ev w h cid)) = trace w @ rest \<and>
          list_all (summary_event h) rest"
proof -
  let ?cid = "if \<not> truthy cid then JStr (uuid4 ev) else cid"
  have "snd (generate_conversation_summary ev w h cid) = snd (summary_try ev w h ?cid)"
    by (simp add: generate_conversation_summary_def Let_def split: prod.splits sum.splits)
  then show ?thesis using summary_try_trace [of ev w h ?cid] by simp
qed

lemma summary_if_ended_trace:
  "\<exists>rest. trace (snd (summary_if_ended ev w h)) = trace w @ rest \<and>
          list_all (summary_event h) rest"
  using generate_conversation_summary_trace [of ev w h]
  by (simp add: summary_if_ended_def split: sum.splits bool.splits)

text \<open>
  Claim C1. In the round trip of /tool-call-result, when every tool call of the triggering
  assistant message can be dispatched and the model answers the final request: the calls
  are executed in the order they appear; each adds, after the transcript received, exactly
  one message of role \<open>tool\<close> whose \<open>tool_call_id\<close> is the id of that call and whose
  content is the serialized result of the named tool; the transcript so augmented is
  submitted for one completion with no tool schemas; the content returned (the empty string
  when it is \<open>None\<close>) is appended as the final assistant message. The summary step then
  runs on that transcript: the route answers 200 with the final response and the
  transcript, or 500 when the summary step raises, and nothing is called after the final
  completion but what summary generation calls.
\<close>

theorem tool_call_result_round_trip:
  assumes "get_or (data_conversation_history d) [] = Some h"
    and "find_tool_call_message h = Some tm"
    and "tool_calls tm = Val calls"
    and "\<forall>c\<in>set calls. dispatchable ev c"
    and "tool_msgs =
           map (\<lambda>c. \<lparr>role = Some ''tool'',
                      content = Val (json_dumps ev (tool_result ev (inventory w) c)),
                      tool_calls = Absent, tool_call_id = Some (call_id c)\<rparr>) calls"
    and "request =
           \<lparr>req_model = ''o3-mini-2025-01-31'', req_messages = h @ tool_msgs,
            req_tools = None, req_response_format = None,
            req_max_completion_tokens = None, req_reasoning_effort = None\<rparr>"
    and "chat_completion ev request = Inr completion"
    and "final = (case message_content completion of None \<Rightarrow> [] | Some c \<Rightarrow> c)"
    and "h2 = h @ tool_msgs @
                [\<lparr>role = Some ''assistant'', content = Val final, tool_calls = Absent,
                  tool_call_id = None\<rparr>]"
    and "w1 = w\<lparr>trace := trace w @
                   map (\<lambda>c. ToolExecuted (function_name c) (parsed_args ev c)) calls @
                   [ModelCall request]\<rparr>"
  shows "tool_call_result ev w (Some d) =
           (case summary_if_ended ev w1 h2 of
              (Inl e, w2) \<Rightarrow> (\<lparr>status = 500, body = ErrorBody (str_of_exn e)\<rparr>, w2)
            | (Inr summary, w2) \<Rightarrow>
                (\<lparr>status = 200, body = ToolResultBody final h2 summary\<rparr>, w2))
         \<and> (\<exists>rest. trace (snd (tool_call_result ev w (Some d))) = trace w1 @ rest \<and>
                     list_all (summary_event h2) rest)"
proof -
  from assms(2) have t: "truthy_calls (tool_calls tm)"
    by (simp add: find_tool_call_message_Some)
  have tm: "tool_msgs = map (tool_response_message ev (inventory w)) calls"
    by (simp add: assms(5) tool_response_message_def)
  have te: "map (\<lambda>c. ToolExecuted (function_name c) (parsed_args ev c)) calls
      = map (tool_event ev) calls"
    by (simp add: tool_event_def)
  have rq: "request = final_request (h @ tool_msgs)"
    by (simp add: assms(6) final_request_def)
  have p: "process_tool_calls ev w h calls =
      (Inr (h @ tool_msgs), w\<lparr>trace := trace w @ map (tool_event ev) calls\<rparr>)"
    using assms(4) by (simp add: process_tool_calls_dispatchable tm)
  have e: "emit (ModelCall (final_request (h @ tool_msgs)))
             (w\<lparr>trace := trace w @ map (tool_event ev) calls\<rparr>) = w1"
    by (simp add: emit_def assms(10) te rq)
  have a: "h @ tool_msgs @ [assistant_message final []] = h2"
    by (simp add: assms(9) assistant_message_def)
  have c: "chat_completion ev (final_request (h @ tool_msgs)) = Inr completion"
    using assms(7) by (simp add: rq)
  have f: "final_response_step ev (w\<lparr>trace := trace w @ map (tool_event ev) calls\<rparr>)
             (h @ tool_msgs) =
      (case summary_if_ended ev w1 h2 of
         (Inl e, w2) \<Rightarrow> (\<lparr>status = 500, body = ErrorBody (str_of_exn e)\<rparr>, w2)
       | (Inr summary, w2) \<Rightarrow>
           (\<lparr>status = 200, body = ToolResultBody final h2 summary\<rparr>, w2))"
  proof (cases "summary_if_ended ev w1 h2")
    case (Pair r w2)
    then show ?thesis
      by (cases r)
        (simp_all add: final_response_step_def Let_def c e a assms(8) [symmetric]
          exception_response_def error_response_def)
  qed
  have r: "tool_call_result ev w (Some d) =
      (case summary_if_ended ev w1 h2 of
         (Inl e, w2) \<Rightarrow> (\<lparr>status = 500, body = ErrorBody (str_of_exn e)\<rparr>, w2)
       | (Inr summary, w2) \<Rightarrow>
           (\<lparr>status = 200, body = ToolResultBody final h2 summary\<rparr>, w2))"
    using assms(1) assms(2) assms(3) t p f by (simp add: tool_call_result_def)
  have s: "snd (tool_call_result ev w (Some d)) = snd (summary_if_ended ev w1 h2)"
    by (simp add: r split: prod.splits sum.splits)
  have x: "\<exists>rest. trace (snd (tool_call_result ev w (Some d))) = trace w1 @ rest \<and>
      list_all (summary_event h2) rest"
    unfolding s by (rule summary_if_ended_trace)
  from r x show ?thesis by blast
qed

text \<open>
  Claim C2, amended. A POST to /tool-call-result whose transcript is a list of messages
  that holds no assistant message with a non-empty list of tool calls, at any position,
  is answered with 400; no tool is executed and no completion is requested (the state,
  the trace of calls included, is unchanged).
\<close>

theorem tool_call_result_no_pending_call:
  "data_conversation_history d = Val h \<and>
   (\<forall>m\<in>set h. role m = Some ''assistant'' \<longrightarrow> (\<forall>c cs. tool_calls m \<noteq> Val (c # cs)))
     \<longrightarrow> fst (tool_call_result ev w (Some d)) =
           \<lparr>status = 400,
            body = ErrorBody ''No assistant message found in conversation history''\<rparr> \<and>
         snd (tool_call_result ev w (Some d)) = w"
proof
  assume a: "data_conversation_history d = Val h \<and>
   (\<forall>m\<in>set h. role m = Some ''assistant'' \<longrightarrow> (\<forall>c cs. tool_calls m \<noteq> Val (c # cs)))"
  have "\<not> (role m = Some ''assistant'' \<and> truthy_calls (tool_calls m))" if "m \<in> set h" for m
    using a that by (auto simp: truthy_calls_def split: slot.splits list.splits)
  then have "find_tool_call_message h = None"
    by (simp add: find_tool_call_message_None)
  with a show "fst (tool_call_result ev w (Some d)) =
           \<lparr>status = 400,
            body = ErrorBody ''No assistant message found in conversation history''\<rparr> \<and>
         snd (tool_call_result ev w (Some d)) = w"
    by (simp add: tool_call_result_def error_response_def)
qed

lemma placeholder_no_phrase: "\<not> any_end_phrase (lower ''Processing your request...'')"
  by (simp add: any_end_phrase_def end_phrases_def lower_def lower_char_def)

lemma sample_tool_response:
  "tool_response_message sample_env [sample_car ''ABC123'' ''Kicks''] sample_call
     = tool_message ''call_1'' ''[...]''"
  by (simp add: tool_response_message_def tool_message_def tool_result_def parsed_args_def sample_call_def
      sample_env_def fetch_cars_def row_matches_def string_filter_def numeric_filter_def
      no_args_def)

lemma sample_dispatchable: "dispatchable sample_env sample_call"
  by (simp add: dispatchable_def sample_call_def sample_env_def)

lemma sample_tool_event: "tool_event sample_env sample_call = ToolExecuted ''fetch_cars'' no_args"
  by (simp add: tool_event_def parsed_args_def sample_call_def sample_env_def)

lemma sample_completion_always: "chat_completion sample_env r = Inr sample_completion"
  by (simp add: sample_env_def)

text \<open>
  Claim C1 at a transcript that ends with one pending call of \<open>fetch_cars\<close>, once with
  the placeholder for content (the route answers 200) and once with \<open>None\<close> for content,
  as the model API sends it (the tool runs, the completion is requested, and the route
  answers 500 because the detector raises on the pending message).
\<close>

theorem tool_call_result_round_trip_witness:
  "tool_call_result sample_env sample_world
     (Some (history_data
        [user_msg ''Show me what you have'',
         assistant_message ''Processing your request...'' [sample_call]]))
   = (\<lparr>status = 200,
       body = ToolResultBody ''We have two Nissan models in stock.''
                [user_msg ''Show me what you have'',
                 assistant_message ''Processing your request...'' [sample_call],
                 \<lparr>role = Some ''tool'', content = Val ''[...]'', tool_calls = Absent,
                  tool_call_id = Some ''call_1''\<rparr>,
                 \<lparr>role = Some ''assistant'',
                  content = Val ''We have two Nissan models in stock.'',
                  tool_calls = Absent, tool_call_id = None\<rparr>]
                JNull\<rparr>,
      sample_world
        \<lparr>trace :=
           [ToolExecuted ''fetch_cars'' no_args,
            ModelCall
              \<lparr>req_model = ''o3-mini-2025-01-31'',
               req_messages =
                 [user_msg ''Show me what you have'',
                  assistant_message ''Processing your request...'' [sample_call],
                  \<lparr>role = Some ''tool'', content = Val ''[...]'', tool_calls = Absent,
                   tool_call_id = Some ''call_1''\<rparr>],
               req_tools = None, req_response_format = None,
               req_max_completion_tokens = None, req_reasoning_effort = None\<rparr>]\<rparr>)
   \<and> tool_call_result sample_env sample_world
     (Some (history_data [user_msg ''Show me what you have'', pending_null]))
   = (\<lparr>status = 500, body = ErrorBody ''NoneType object has no attribute lower''\<rparr>,
      sample_world
        \<lparr>trace :=
           [ToolExecuted ''fetch_cars'' no_args,
            ModelCall
              \<lparr>req_model = ''o3-mini-2025-01-31'',
               req_messages =
                 [user_msg ''Show me what you have'', pending_null,
                  \<lparr>role = Some ''tool'', content = Val ''[...]'', tool_calls = Absent,
                   tool_call_id = Some ''call_1''\<rparr>],
               req_tools = None, req_response_format = None,
               req_max_completion_tokens = None, req_reasoning_effort = None\<rparr>]\<rparr>)"
proof -
  let ?tool = "\<lparr>role = Some ''tool'', content = Val ''[...]'', tool_calls = Absent,
                tool_call_id = Some ''call_1''\<rparr>"
  let ?final = "\<lparr>role = Some ''assistant'',
                 content = Val ''We have two Nissan models in stock.'',
                 tool_calls = Absent, tool_call_id = None\<rparr>"
  have a4: "\<forall>c\<in>set [sample_call]. dispatchable sample_env c"
    by (simp add: sample_dispatchable)
  have a5: "[?tool] =
      map (\<lambda>c. \<lparr>role = Some ''tool'',
                 content = Val (json_dumps sample_env
                                  (tool_result sample_env (inventory sample_world) c)),
                 tool_calls = Absent, tool_call_id = Some (call_id c)\<rparr>) [sample_call]"
    using sample_tool_response
    by (simp add: tool_response_message_def tool_message_def sample_world_def sample_call_def)
  have a7: "chat_completion sample_env r = Inr sample_completion" for r
    by (rule sample_completion_always)
  have a8: "''We have two Nissan models in stock.''
      = (case message_content sample_completion of None \<Rightarrow> [] | Some c \<Rightarrow> c)"
    by (simp add: sample_completion_def)
  have ev: "function_name sample_call = ''fetch_cars''"
    "parsed_args sample_env sample_call = no_args"
    using sample_tool_event by (simp_all add: tool_event_def)
  have first: "tool_call_result sample_env sample_world
     (Some (history_data
        [user_msg ''Show me what you have'',
         assistant_message ''Processing your request...'' [sample_call]]))
   = (\<lparr>status = 200,
       body = ToolResultBody ''We have two Nissan models in stock.''
                [user_msg ''Show me what you have'',
                 assistant_message ''Processing your request...'' [sample_call], ?tool, ?final]
                JNull\<rparr>,
      sample_world
        \<lparr>trace :=
           [ToolExecuted ''fetch_cars'' no_args,
            ModelCall
              \<lparr>req_model = ''o3-mini-2025-01-31'',
               req_messages =
                 [user_msg ''Show me what you have'',
                  assistant_message ''Processing your request...'' [sample_call], ?tool],
               req_tools = None, req_response_format = None,
               req_max_completion_tokens = None, req_reasoning_effort = None\<rparr>]\<rparr>)"
  proof -
    let ?h = "[user_msg ''Show me what you have'',
               assistant_message ''Processing your request...'' [sample_call]]"
    let ?req = "\<lparr>req_model = ''o3-mini-2025-01-31'', req_messages = ?h @ [?tool],
               req_tools = None, req_response_format = None,
               req_max_completion_tokens = None, req_reasoning_effort = None\<rparr>"
    let ?h2 = "?h @ [?tool] @ [?final]"
    let ?w1 = "sample_world\<lparr>trace := trace sample_world @
                   map (\<lambda>c. ToolExecuted (function_name c) (parsed_args sample_env c)) [sample_call] @
                   [ModelCall ?req]\<rparr>"
    have a1: "get_or (data_conversation_history (history_data ?h)) [] = Some ?h"
      by (simp add: history_data_def)
    have a2: "find_tool_call_message ?h
        = Some (assistant_message ''Processing your request...'' [sample_call])"
      by (simp add: find_tool_call_message_def assistant_message_def truthy_calls_def user_msg_def)
    have a3: "tool_calls (assistant_message ''Processing your request...'' [sample_call])
        = Val [sample_call]"
      by (simp add: assistant_message_def)
    have d: "detect_end_of_conversation ?h2 = Inr False"
      using placeholder_no_phrase sample_reply_no_phrase
      by (simp add: detect_end_of_conversation_def user_msg_def assistant_message_def)
    have s: "summary_if_ended sample_env ?w1 ?h2 = (Inr JNull, ?w1)"
      by (simp only: summary_if_ended_def d sum.case bool.case)
    have "tool_call_result sample_env sample_world (Some (history_data ?h)) =
        (\<lparr>status = 200, body = ToolResultBody ''We have two Nissan models in stock.'' ?h2 JNull\<rparr>,
         ?w1)"
      using tool_call_result_round_trip
        [OF a1 a2 a3 a4 a5 refl a7 a8 refl refl, THEN conjunct1]
      by (simp only: s prod.case sum.case)
    then show ?thesis by (simp add: ev sample_world_def)
  qed
  have second: "tool_call_result sample_env sample_world
     (Some (history_data [user_msg ''Show me what you have'', pending_null]))
   = (\<lparr>status = 500, body = ErrorBody ''NoneType object has no attribute lower''\<rparr>,
      sample_world
        \<lparr>trace :=
           [ToolExecuted ''fetch_cars'' no_args,
            ModelCall
              \<lparr>req_model = ''o3-mini-2025-01-31'',
               req_messages = [user_msg ''Show me what you have'', pending_null, ?tool],
               req_tools = None, req_response_format = None,
               req_max_completion_tokens = None, req_reasoning_effort = None\<rparr>]\<rparr>)"
  proof -
    let ?h = "[user_msg ''Show me what you have'', pending_null]"
    let ?req = "\<lparr>req_model = ''o3-mini-2025-01-31'', req_messages = ?h @ [?tool],
               req_tools = None, req_response_format = None,
               req_max_completion_tokens = None, req_reasoning_effort = None\<rparr>"
    let ?h2 = "?h @ [?tool] @ [?final]"
    let ?w1 = "sample_world\<lparr>trace := trace sample_world @
                   map (\<lambda>c. ToolExecuted (function_name c) (parsed_args sample_env c)) [sample_call] @
                   [ModelCall ?req]\<rparr>"
    have a1: "get_or (data_conversation_history (history_data ?h)) [] = Some ?h"
      by (simp add: history_data_def)
    have a2: "find_tool_call_message ?h = Some pending_null"
      by (simp add: find_tool_call_message_def pending_null_def truthy_calls_def user_msg_def)
    have a3: "tool_calls pending_null = Val [sample_call]"
      by (simp add: pending_null_def)
    have d: "detect_end_of_conversation ?h2
        = Inl (AttributeError ''NoneType object has no attribute lower'')"
      using sample_reply_no_phrase
      by (simp add: detect_end_of_conversation_def user_msg_def pending_null_def)
    have s: "summary_if_ended sample_env ?w1 ?h2
        = (Inl (AttributeError ''NoneType object has no attribute lower''), ?w1)"
      by (simp only: summary_if_ended_def d sum.case)
    have "tool_call_result sample_env sample_world (Some (history_data ?h)) =
        (\<lparr>status = 500, body = ErrorBody ''NoneType object has no attribute lower''\<rparr>, ?w1)"
      using tool_call_result_round_trip
        [OF a1 a2 a3 a4 a5 refl a7 a8 refl refl, THEN conjunct1]
      by (simp only: s prod.case sum.case str_of_exn.simps)
    then show ?thesis by (simp add: ev sample_world_def)
  qed
  from first second show ?thesis by blast
qed

text \<open>The amended claim C2 at a transcript of two messages without tool calls.\<close>

theorem tool_call_result_no_pending_call_witness:
  "fst (tool_call_result sample_env sample_world
     (Some (history_data [user_msg ''Hello'', assistant_msg ''Hi, how can I help?''])))
     = \<lparr>status = 400,
        body = ErrorBody ''No assistant message found in conversation history''\<rparr>
   \<and> snd (tool_call_result sample_env sample_world
     (Some (history_data [user_msg ''Hello'', assistant_msg ''Hi, how can I help?'']))) = sample_world"
  using tool_call_result_no_pending_call
    [of "history_data [user_msg ''Hello'', assistant_msg ''Hi, how can I help?'']"
        "[user_msg ''Hello'', assistant_msg ''Hi, how can I help?'']" sample_env sample_world]
  by (simp add: history_data_def user_msg_def assistant_msg_def)

text \<open>
  Claim C2 as stated fails: this transcript ends with a user message, not with a pending
  tool-call message, and the route finds the earlier assistant message that carries a tool
  call, executes \<open>fetch_cars\<close>, requests a completion and answers 200.
\<close>

theorem tool_call_result_earlier_call_counterexample:
  "\<not> (role (last [assistant_message ''Processing your request...'' [sample_call],
                   user_msg ''Any update?'']) = Some ''assistant'' \<and>
       truthy_calls (tool_calls (last [assistant_message ''Processing your request...'' [sample_call],
                   user_msg ''Any update?''])))
   \<and> status (fst (tool_call_result sample_env sample_world
        (Some (history_data [assistant_message ''Processing your request...'' [sample_call],
                             user_msg ''Any update?''])))) = 200
   \<and> trace (snd (tool_call_result sample_env sample_world
        (Some (history_data [assistant_message ''Processing your request...'' [sample_call],
                             user_msg ''Any update?''])))) =
       [ToolExecuted ''fetch_cars'' no_args,
        ModelCall (final_request
          [assistant_message ''Processing your request...'' [sample_call],
           user_msg ''Any update?'', tool_message ''call_1'' ''[...]''])]"
proof -
  let ?h = "[assistant_message ''Processing your request...'' [sample_call],
             user_msg ''Any update?'']"
  let ?h1 = "?h @ [tool_message ''call_1'' ''[...]'']"
  let ?h2 = "?h1 @ [assistant_message ''We have two Nissan models in stock.'' []]"
  have f: "find_tool_call_message ?h
      = Some (assistant_message ''Processing your request...'' [sample_call])"
    by (simp add: find_tool_call_message_def assistant_message_def truthy_calls_def user_msg_def)
  have c: "tool_calls (assistant_message ''Processing your request...'' [sample_call])
      = Val [sample_call]"
    by (simp add: assistant_message_def)
  have p: "process_tool_calls sample_env sample_world ?h [sample_call] =
      (Inr ?h1, sample_world\<lparr>trace := [ToolExecuted ''fetch_cars'' no_args]\<rparr>)"
    using process_tool_calls_dispatchable [of "[sample_call]" sample_env sample_world ?h]
    by (simp add: sample_dispatchable sample_tool_response sample_tool_event sample_world_def)
  have d: "detect_end_of_conversation ?h2 = Inr False"
    using placeholder_no_phrase sample_reply_no_phrase
    by (simp add: detect_end_of_conversation_def user_msg_def assistant_message_def
        tool_message_def)
  have s: "summary_if_ended sample_env w ?h2 = (Inr JNull, w)" for w
    by (simp only: summary_if_ended_def d sum.case bool.case)
  have r: "tool_call_result sample_env sample_world (Some (history_data ?h)) =
      (\<lparr>status = 200, body = ToolResultBody ''We have two Nissan models in stock.'' ?h2 JNull\<rparr>,
       emit (ModelCall (final_request ?h1))
         (sample_world\<lparr>trace := [ToolExecuted ''fetch_cars'' no_args]\<rparr>))"
    using f c p s
    by (simp add: tool_call_result_def history_data_def truthy_calls_def
        final_response_step_def sample_completion_always sample_completion_def Let_def)
  have l: "role (last ?h) = Some ''user''" by (simp add: user_msg_def)
  show ?thesis using l by (simp add: r emit_def)
qed

section \<open>Summary generation and its persistence: claims C3 and C8\<close>

lemma generate_conversation_summary_fst:
  "fst (generate_conversation_summary ev w h cid) =
     (case fst (summary_try ev w h (if \<not> truthy cid then JStr (uuid4 ev) else cid)) of
        Inl e \<Rightarrow> Inr (default_summary (if \<not> truthy cid then JStr (uuid4 ev) else cid) e)
      | Inr s \<Rightarrow> Inr s)"
  by (simp add: generate_conversation_summary_def Let_def split: prod.splits sum.splits)

text \<open>
  Claim C3, amended. \<open>generate_conversation_summary\<close> never raises. When the model request
  fails, when its content cannot be parsed (or is \<open>None\<close>), when the parsed value is not
  a JSON object, or when recording the analytics raises, it returns the default summary:
  sentiment \<open>neutral\<close>, keywords \<open>["error"]\<close>, department \<open>Sales\<close>, and the error text after
  \<open>Error: \<close> in \<open>insights.additional_notes\<close>. When the content parses to a JSON object and
  the analytics are recorded, that object is returned with \<open>conversation_id\<close> set,
  whatever its other keys are: it is not checked against the summary schema.
\<close>

theorem generate_conversation_summary_never_raises:
  assumes "c = (if \<not> truthy cid then JStr (uuid4 ev) else cid)"
  shows
  "(\<exists>s w'. generate_conversation_summary ev w h cid = (Inr s, w'))
   \<and> (chat_completion ev (summary_request h) = Inl e
        \<longrightarrow> fst (generate_conversation_summary ev w h cid) = Inr (default_summary c e))
   \<and> (chat_completion ev (summary_request h) = Inr response \<and>
       loads_content ev (message_content response) = Inl e
        \<longrightarrow> fst (generate_conversation_summary ev w h cid) = Inr (default_summary c e))
   \<and> (chat_completion ev (summary_request h) = Inr response \<and>
       loads_content ev (message_content response) = Inr parsed \<and>
       set_item parsed ''conversation_id'' c = Inl e
        \<longrightarrow> fst (generate_conversation_summary ev w h cid) = Inr (default_summary c e))
   \<and> (chat_completion ev (summary_request h) = Inr response \<and>
       loads_content ev (message_content response) = Inr parsed \<and>
       set_item parsed ''conversation_id'' c = Inr summary_json \<and>
       store_analytics ev (usage response) = Some e
        \<longrightarrow> fst (generate_conversation_summary ev w h cid) = Inr (default_summary c e))
   \<and> (chat_completion ev (summary_request h) = Inr response \<and>
       loads_content ev (message_content response) = Inr (JObj kvs) \<and>
       store_analytics ev (usage response) = None
        \<longrightarrow> fst (generate_conversation_summary ev w h cid)
              = Inr (JObj (AList.update ''conversation_id'' c kvs)))
   \<and> get_item (default_summary c e) ''sentiment'' = Inr (JStr ''neutral'')
   \<and> get_item (default_summary c e) ''keywords'' = Inr (JArr [JStr ''error''])
   \<and> get_item (default_summary c e) ''department'' = Inr (JStr ''Sales'')
   \<and> (case get_item (default_summary c e) ''insights'' of
         Inl x \<Rightarrow> False
       | Inr ins \<Rightarrow> get_item ins ''additional_notes'' = Inr (JStr (''Error: '' @ str_of_exn e)))"
proof -
  have 1: "\<exists>s w'. generate_conversation_summary ev w h cid = (Inr s, w')"
    by (simp add: generate_conversation_summary_def Let_def split: prod.splits sum.splits)
  have 2: "chat_completion ev (summary_request h) = Inl e
        \<longrightarrow> fst (generate_conversation_summary ev w h cid) = Inr (default_summary c e)"
    by (simp add: generate_conversation_summary_fst summary_try_def Let_def assms)
  have 3: "chat_completion ev (summary_request h) = Inr response \<and>
       loads_content ev (message_content response) = Inl e
        \<longrightarrow> fst (generate_conversation_summary ev w h cid) = Inr (default_summary c e)"
    by (simp add: generate_conversation_summary_fst summary_try_def Let_def assms)
  have 4: "chat_completion ev (summary_request h) = Inr response \<and>
       loads_content ev (message_content response) = Inr parsed \<and>
       set_item parsed ''conversation_id'' c = Inl e
        \<longrightarrow> fst (generate_conversation_summary ev w h cid) = Inr (default_summary c e)"
    by (simp add: generate_conversation_summary_fst summary_try_def Let_def assms)
  have 5: "chat_completion ev (summary_request h) = Inr response \<and>
       loads_content ev (message_content response) = Inr parsed \<and>
       set_item parsed ''conversation_id'' c = Inr summary_json \<and>
       store_analytics ev (usage response) = Some e
        \<longrightarrow> fst (generate_conversation_summary ev w h cid) = Inr (default_summary c e)"
    by (simp add: generate_conversation_summary_fst summary_try_def Let_def assms)
  have 6: "chat_completion ev (summary_request h) = Inr response \<and>
       loads_content ev (message_content response) = Inr (JObj kvs) \<and>
       store_analytics ev (usage response) = None
        \<longrightarrow> fst (generate_conversation_summary ev w h cid)
              = Inr (JObj (AList.update ''conversation_id'' c kvs))"
    by (simp add: generate_conversation_summary_fst summary_try_def Let_def assms)
  have 7: "get_item (default_summary c e) ''sentiment'' = Inr (JStr ''neutral'')"
    "get_item (default_summary c e) ''keywords'' = Inr (JArr [JStr ''error''])"
    "get_item (default_summary c e) ''department'' = Inr (JStr ''Sales'')"
    "(case get_item (default_summary c e) ''insights'' of
         Inl x \<Rightarrow> False
       | Inr ins \<Rightarrow> get_item ins ''additional_notes'' = Inr (JStr (''Error: '' @ str_of_exn e)))"
    by (simp_all add: default_summary_def)
  from 1 2 3 4 5 6 7 show ?thesis by blast
qed

text \<open>The amended claim C3 at a model whose answer is not JSON.\<close>

theorem generate_conversation_summary_never_raises_witness:
  "fst (generate_conversation_summary sample_env empty_world [user_msg ''Hello''] JNull)
     = Inr (default_summary (JStr ''123e4567-e89b-42d3-a456-426614174000'')
              (ExternalError ''Expecting value: line 1 column 1 (char 0)''))"
proof -
  have a: "JStr ''123e4567-e89b-42d3-a456-426614174000''
      = (if \<not> truthy JNull then JStr (uuid4 sample_env) else JNull)"
    by (simp add: sample_env_def)
  have b: "chat_completion sample_env (summary_request [user_msg ''Hello'']) = Inr sample_completion"
    by (rule sample_completion_always)
  have c: "loads_content sample_env (message_content sample_completion)
      = Inl (ExternalError ''Expecting value: line 1 column 1 (char 0)'')"
    by (simp add: loads_content_def sample_completion_def sample_env_def)
  show ?thesis
    using b c generate_conversation_summary_never_raises
      [OF a, of empty_world "[user_msg ''Hello'']"
         "ExternalError ''Expecting value: line 1 column 1 (char 0)''" sample_completion]
    by blast
qed

text \<open>
  Claim C3 as stated fails on a schema mismatch: the model answers with the empty JSON
  object, and what is returned is that object with the conversation id, which has no
  \<open>sentiment\<close>, not the default summary.
\<close>

theorem generate_conversation_summary_schema_counterexample:
  "fst (generate_conversation_summary empty_object_env empty_world [user_msg ''Hello''] JNull)
     = Inr (JObj [(''conversation_id'', JStr ''123e4567-e89b-42d3-a456-426614174000'')])
   \<and> get_item (JObj [(''conversation_id'', JStr ''123e4567-e89b-42d3-a456-426614174000'')])
        ''sentiment'' = Inl (KeyError ''sentiment'')"
  by (simp add: generate_conversation_summary_fst summary_try_def Let_def empty_object_env_def
      sample_env_def loads_content_def sample_completion_def)

text \<open>
  Claim C8 against the code. When the summary is generated and its commit fails, the
  session is rolled back (no row is added, nothing stays pending, the last call is the
  rollback), and /generate-summary still answers 200 with the summary: the failure is not
  reported.
\<close>

theorem generate_summary_save_failure:
  assumes "get_or (data_conversation_history d) [] = Some h"
    and "c = (if \<not> truthy (data_conversation_id d) then JStr (uuid4 ev)
              else data_conversation_id d)"
    and "chat_completion ev (summary_request h) = Inr response"
    and "loads_content ev (message_content response) = Inr (JObj kvs)"
    and "store_analytics ev (usage response) = None"
    and "new_interaction (JObj (AList.update ''conversation_id'' c kvs)) = Inr row"
    and "db_commit ev (session_new w @ [row]) = Some e"
  shows "fst (generate_summary ev w (Some d)) =
           \<lparr>status = 200, body = SummaryBody (JObj (AList.update ''conversation_id'' c kvs))\<rparr>
         \<and> interactions (snd (generate_summary ev w (Some d))) = interactions w
         \<and> session_new (snd (generate_summary ev w (Some d))) = []
         \<and> last (trace (snd (generate_summary ev w (Some d)))) = DbRollback"
  using assms
  by (simp add: generate_summary_def generate_conversation_summary_def summary_try_def
      save_summary_to_db_def rollback_def emit_def Let_def)

text \<open>Claim C8 at a database that has lost its connection.\<close>

theorem generate_summary_save_failure_witness:
  "fst (generate_summary failing_db_env empty_world (Some (history_data [user_msg ''Hello''])))
     = \<lparr>status = 200,
        body = SummaryBody
          (JObj (AList.update ''conversation_id'' (JStr ''123e4567-e89b-42d3-a456-426614174000'')
             [(''sentiment'', JStr ''positive''),
              (''keywords'', JArr [JStr ''test drive'']),
              (''summary'', JStr ''The customer asked for a test drive.''),
              (''department'', JStr ''Sales''),
              (''insights'',
                 JObj [(''urgency'', JStr ''high''),
                       (''upsell_opportunity'', JBool False),
                       (''customer_interest'', JStr ''high''),
                       (''additional_notes'', JStr ''Call back today.'')])]))\<rparr>
   \<and> interactions (snd (generate_summary failing_db_env empty_world
         (Some (history_data [user_msg ''Hello''])))) = []"
proof -
  let ?kvs = "[(''sentiment'', JStr ''positive''),
              (''keywords'', JArr [JStr ''test drive'']),
              (''summary'', JStr ''The customer asked for a test drive.''),
              (''department'', JStr ''Sales''),
              (''insights'',
                 JObj [(''urgency'', JStr ''high''),
                       (''upsell_opportunity'', JBool False),
                       (''customer_interest'', JStr ''high''),
                       (''additional_notes'', JStr ''Call back today.'')])]"
  let ?c = "JStr ''123e4567-e89b-42d3-a456-426614174000''"
  let ?row = "\<lparr>conversation_summary = JStr ''The customer asked for a test drive.'',
      sentiment = JStr ''positive'', product_keywords = JArr [JStr ''test drive''],
      priority_flag = True, next_steps_recommendation = JStr ''Call back today.''\<rparr>"
  have a1: "get_or (data_conversation_history (history_data [user_msg ''Hello''])) []
      = Some [user_msg ''Hello'']"
    by (simp add: history_data_def)
  have a2: "?c = (if \<not> truthy (data_conversation_id (history_data [user_msg ''Hello'']))
      then JStr (uuid4 failing_db_env)
      else data_conversation_id (history_data [user_msg ''Hello'']))"
    by (simp add: history_data_def failing_db_env_def sample_env_def)
  have a3: "chat_completion failing_db_env (summary_request [user_msg ''Hello''])
      = Inr sample_completion"
    by (simp add: failing_db_env_def sample_env_def)
  have a4: "loads_content failing_db_env (message_content sample_completion) = Inr (JObj ?kvs)"
    by (simp add: loads_content_def failing_db_env_def sample_completion_def
        sample_summary_json_def)
  have a5: "store_analytics failing_db_env (usage sample_completion) = None"
    by (simp add: failing_db_env_def sample_env_def)
  have a6: "new_interaction (JObj (AList.update ''conversation_id'' ?c ?kvs)) = Inr ?row"
    by (simp add: new_interaction_def)
  have a7: "db_commit failing_db_env (session_new empty_world @ [?row])
      = Some (ExternalError ''connection to the database lost'')"
    by (simp add: failing_db_env_def)
  show ?thesis
    using generate_summary_save_failure [OF a1 a2 a3 a4 a5 a6 a7]
    by (simp add: empty_world_def)
qed


end
